theory Spec2Isabelle
  imports Complex_Main "HOL-Library.Sublist"
begin

section \<open>Python strings\<close>

text \<open>
  The source is \<^verbatim>\<open>src/monitoring/debug-toolkit.py\<close>. Python \<^verbatim>\<open>str\<close> values are modelled as
  \<^typ>\<open>string\<close>, where a \<^typ>\<open>char\<close> is a code point from U+0000 to U+00FF: the model
  covers text of these code points, and the string methods the program calls are
  defined here as Python defines them on such text.
\<close>

definition is_space :: "char \<Rightarrow> bool" where
  \<comment> \<open>\<^verbatim>\<open>str.isspace\<close> of one character: TAB, LF, VT, FF, CR, FS, GS, RS, US, the blank,
      NEL (U+0085) and the no-break space (U+00A0).\<close>
  "is_space c = (c \<in> set [CHR 0x09, CHR 0x0A, CHR 0x0B, CHR 0x0C, CHR 0x0D,
                           CHR 0x1C, CHR 0x1D, CHR 0x1E, CHR 0x1F, CHR 0x20,
                           CHR 0x85, CHR 0xA0])"

definition strip :: "string \<Rightarrow> string" where
  \<comment> \<open>\<^verbatim>\<open>s.strip()\<close>\<close>
  "strip s = rev (dropWhile is_space (rev (dropWhile is_space s)))"

definition uppercase :: string where
  \<comment> \<open>The characters that \<^verbatim>\<open>str.lower\<close> changes: A to Z, and U+00C0 to U+00DE without the
      multiplication sign U+00D7.\<close>
  "uppercase =
     ''ABCDEFGHIJKLMNOPQRSTUVWXYZ'' @
       [CHR 0xC0, CHR 0xC1, CHR 0xC2, CHR 0xC3, CHR 0xC4, CHR 0xC5, CHR 0xC6, CHR 0xC7,
        CHR 0xC8, CHR 0xC9, CHR 0xCA, CHR 0xCB, CHR 0xCC, CHR 0xCD, CHR 0xCE, CHR 0xCF,
        CHR 0xD0, CHR 0xD1, CHR 0xD2, CHR 0xD3, CHR 0xD4, CHR 0xD5, CHR 0xD6, CHR 0xD8,
        CHR 0xD9, CHR 0xDA, CHR 0xDB, CHR 0xDC, CHR 0xDD, CHR 0xDE]"

definition lowercase :: string where
  \<comment> \<open>Their lower-case forms, in the same order: each is 32 code points further.\<close>
  "lowercase =
     ''abcdefghijklmnopqrstuvwxyz'' @
       [CHR 0xE0, CHR 0xE1, CHR 0xE2, CHR 0xE3, CHR 0xE4, CHR 0xE5, CHR 0xE6, CHR 0xE7,
        CHR 0xE8, CHR 0xE9, CHR 0xEA, CHR 0xEB, CHR 0xEC, CHR 0xED, CHR 0xEE, CHR 0xEF,
        CHR 0xF0, CHR 0xF1, CHR 0xF2, CHR 0xF3, CHR 0xF4, CHR 0xF5, CHR 0xF6, CHR 0xF8,
        CHR 0xF9, CHR 0xFA, CHR 0xFB, CHR 0xFC, CHR 0xFD, CHR 0xFE]"

definition lower_char :: "char \<Rightarrow> char" where
  "lower_char c = (case map_of (zip uppercase lowercase) c of Some d \<Rightarrow> d | None \<Rightarrow> c)"

definition lower :: "string \<Rightarrow> string" where
  \<comment> \<open>\<^verbatim>\<open>s.lower()\<close>\<close>
  "lower s = map lower_char s"

definition isdigit :: "string \<Rightarrow> bool" where
  \<comment> \<open>\<^verbatim>\<open>s.isdigit()\<close>: at least one character, all of them digits. The digits are 0 to 9
      and the superscripts U+00B2, U+00B3 and U+00B9.\<close>
  "isdigit s =
     (s \<noteq> [] \<and> list_all (\<lambda>c. c \<in> set (''0123456789'' @ [CHR 0xB2, CHR 0xB3, CHR 0xB9])) s)"

fun split_on :: "char \<Rightarrow> string \<Rightarrow> string list" where
  \<comment> \<open>\<^verbatim>\<open>s.split(sep)\<close> for a one-character separator: \<^verbatim>\<open>"".split(",") == [""]\<close>.\<close>
  "split_on sep [] = [[]]"
| "split_on sep (c # cs) =
     (if c = sep then [] # split_on sep cs
      else (case split_on sep cs of
              [] \<Rightarrow> [[c]]
            | p # ps \<Rightarrow> (c # p) # ps))"

definition center :: "string \<Rightarrow> nat \<Rightarrow> string" where
  \<comment> \<open>\<^verbatim>\<open>s.center(width)\<close>, with CPython's rounding of the left margin.\<close>
  "center s width =
     (if width \<le> length s then s
      else (let marg = width - length s;
                left = marg div 2 + (if odd marg \<and> odd width then 1 else 0)
            in replicate left CHR '' '' @ s @ replicate (marg - left) CHR '' ''))"

definition squote :: "string \<Rightarrow> string" where
  \<comment> \<open>The text \<^verbatim>\<open>'{cmd}'\<close> of an f-string: the argument between two apostrophes.\<close>
  "squote s = [CHR 0x27] @ s @ [CHR 0x27]"

section \<open>The process environment\<close>

text \<open>
  Exceptions are values. \<open>TimeoutExpired\<close> is \<^verbatim>\<open>subprocess.TimeoutExpired\<close>;
  \<open>PyException msg\<close> is any other instance of \<^verbatim>\<open>Exception\<close>, with \<^verbatim>\<open>str(e) == msg\<close>
  (\<^verbatim>\<open>OSError\<close>, \<^verbatim>\<open>ValueError\<close>, \<^verbatim>\<open>UnicodeDecodeError\<close>, \<^verbatim>\<open>EOFError\<close>, ...);
  \<open>KeyboardInterrupt\<close> stands for the exceptions that derive from \<^verbatim>\<open>BaseException\<close>
  but not from \<^verbatim>\<open>Exception\<close>, which an \<^verbatim>\<open>except Exception\<close> clause does not catch.
\<close>

datatype py_exception = TimeoutExpired | PyException string | KeyboardInterrupt

definition EOFError :: py_exception where
  \<comment> \<open>What \<^verbatim>\<open>input()\<close> raises at the end of standard input.\<close>
  "EOFError = PyException ''EOF when reading a line''"

datatype channel = Stdout | Stderr

text \<open>
  What a child process does once the shell is asked to run a command line: either the
  call of \<^verbatim>\<open>subprocess.run\<close> fails with an exception, or the child runs for some time
  (\<open>None\<close>: until it is killed), writes chunks of text to its two output channels in the
  order listed, and exits with a status. The chunks are text as \<^verbatim>\<open>text=True\<close> decodes it.
\<close>

datatype behaviour =
    Fails py_exception
  | Runs "real option" int "(channel \<times> string) list"

text \<open>
  The world answers the \<open>n\<close>-th call of \<^verbatim>\<open>subprocess.run\<close> of the session (counting from
  0) for the command line it is given. Every theorem below holds for all worlds.
\<close>

type_synonym world = "nat \<Rightarrow> string \<Rightarrow> behaviour"

datatype tty_event =
    Print string           \<comment> \<open>a call \<^verbatim>\<open>print(text)\<close>; \<^verbatim>\<open>print()\<close> is \<open>Print []\<close>\<close>
  | Prompt string          \<comment> \<open>the prompt written by \<^verbatim>\<open>input(prompt)\<close>\<close>
  | Child channel string   \<comment> \<open>text a child wrote straight to the terminal\<close>

datatype spawn = Spawn string bool "real option"
  \<comment> \<open>one call of \<^verbatim>\<open>subprocess.run\<close>: the command line, \<^verbatim>\<open>capture_output\<close>, \<^verbatim>\<open>timeout\<close>\<close>

text \<open>
  The state of a running console: the two fields of the \<^verbatim>\<open>DebugToolkit\<close> object, and
  the process's surroundings: the lines the operator has yet to type in answer to the
  console's own prompts, and what has been written to the terminal. Two more fields are
  logs, kept to state properties: the calls of \<^verbatim>\<open>subprocess.run\<close> made so far, and the
  pairs \<^verbatim>\<open>run_command\<close> has returned so far.
\<close>

record console =
  remote_host :: "string option"
  namespace :: string
  stdin :: "string list"
  tty :: "tty_event list"
  spawned :: "spawn list"
  returned :: "(int \<times> string) list"

datatype 'a result = Return 'a console | Raise py_exception console

fun state_of :: "'a result \<Rightarrow> console" where
  "state_of (Return a s) = s"
| "state_of (Raise e s) = s"

definition bind :: "(console \<Rightarrow> 'a result) \<Rightarrow> ('a \<Rightarrow> console \<Rightarrow> 'b result) \<Rightarrow> console \<Rightarrow> 'b result" where
  \<comment> \<open>Statement sequencing: an exception of the first statement skips the rest.\<close>
  "bind m f s = (case m s of Return a s' \<Rightarrow> f a s' | Raise e s' \<Rightarrow> Raise e s')"

definition py_print :: "string \<Rightarrow> console \<Rightarrow> unit result" where
  "py_print text s = Return () (s\<lparr>tty := tty s @ [Print text]\<rparr>)"

definition py_input :: "string \<Rightarrow> console \<Rightarrow> string result" where
  \<comment> \<open>\<^verbatim>\<open>input(prompt)\<close>: the next line of the operator, or \<^verbatim>\<open>EOFError\<close>.\<close>
  "py_input prompt s =
     (let s1 = s\<lparr>tty := tty s @ [Prompt prompt]\<rparr>
      in case stdin s of
           [] \<Rightarrow> Raise EOFError s1
         | line # rest \<Rightarrow> Return line (s1\<lparr>stdin := rest\<rparr>))"

definition written :: "channel \<Rightarrow> (channel \<times> string) list \<Rightarrow> string" where
  \<comment> \<open>Everything a child wrote to one channel, in the order written.\<close>
  "written c ws = concat (map snd (filter (\<lambda>p. fst p = c) ws))"

definition outlives :: "real option \<Rightarrow> real \<Rightarrow> bool" where
  \<comment> \<open>The child is still running when \<open>t\<close> time units have passed.\<close>
  "outlives d t = (case d of None \<Rightarrow> True | Some x \<Rightarrow> t < x)"

definition subprocess_run_capture :: "world \<Rightarrow> string \<Rightarrow> real \<Rightarrow> console \<Rightarrow> (int \<times> string \<times> string) result" where
  \<comment> \<open>The library call \<^verbatim>\<open>subprocess.run(cmd, shell=True, capture_output=True, text=True, timeout=t)\<close>,
      after its documentation: each channel is collected through a pipe of its own; a
      child that outlives the timeout is killed and \<^verbatim>\<open>TimeoutExpired\<close> is raised. The
      result is \<^verbatim>\<open>(returncode, stdout, stderr)\<close>.\<close>
  "subprocess_run_capture w cmd t s =
     (let s1 = s\<lparr>spawned := spawned s @ [Spawn cmd True (Some t)]\<rparr>
      in case w (length (spawned s)) cmd of
           Fails e \<Rightarrow> Raise e s1
         | Runs d rc ws \<Rightarrow>
             if outlives d t then Raise TimeoutExpired s1
             else Return (rc, written Stdout ws, written Stderr ws) s1)"

definition subprocess_run_inherit :: "world \<Rightarrow> string \<Rightarrow> console \<Rightarrow> int result" where
  \<comment> \<open>The library call \<^verbatim>\<open>subprocess.run(cmd, shell=True)\<close>: the child owns the terminal
      and there is no timeout. A child that would not end by itself ends when the
      operator interrupts it. The result is \<^verbatim>\<open>returncode\<close>.\<close>
  "subprocess_run_inherit w cmd s =
     (let s1 = s\<lparr>spawned := spawned s @ [Spawn cmd False None]\<rparr>
      in case w (length (spawned s)) cmd of
           Fails e \<Rightarrow> Raise e s1
         | Runs d rc ws \<Rightarrow> Return rc (s1\<lparr>tty := tty s1 @ map (\<lambda>p. Child (fst p) (snd p)) ws\<rparr>))"

section \<open>The execution gateway\<close>

definition captured_command :: "string \<Rightarrow> string option \<Rightarrow> string" where
  \<comment> \<open>Lines 57-58: \<^verbatim>\<open>if remote_host: cmd = f"ssh -o ConnectTimeout=10 -o BatchMode=yes {remote_host} '{cmd}'"\<close>.
      \<^verbatim>\<open>None\<close> and the empty string are both false in Python.\<close>
  "captured_command cmd host =
     (case host of
        None \<Rightarrow> cmd
      | Some h \<Rightarrow>
          if h = [] then cmd
          else ''ssh -o ConnectTimeout=10 -o BatchMode=yes '' @ h @ '' '' @ squote cmd)"

definition give :: "int \<times> string \<Rightarrow> console \<Rightarrow> (int \<times> string) result" where
  \<comment> \<open>A \<^verbatim>\<open>return\<close> statement of \<^verbatim>\<open>run_command\<close>: the pair is also entered in the log.\<close>
  "give r s = Return r (s\<lparr>returned := returned s @ [r]\<rparr>)"

definition run_command :: "world \<Rightarrow> string \<Rightarrow> string option \<Rightarrow> console \<Rightarrow> (int \<times> string) result" where
  "run_command w cmd host s =
     (case subprocess_run_capture w (captured_command cmd host) 60 s of
        Return (returncode, out, err) s' \<Rightarrow> give (returncode, out @ err) s'
      | Raise TimeoutExpired s' \<Rightarrow> give (1, ''Command timed out'') s'
      | Raise (PyException msg) s' \<Rightarrow> give (1, msg) s'
      | Raise KeyboardInterrupt s' \<Rightarrow> Raise KeyboardInterrupt s')"

definition interactive_command :: "string \<Rightarrow> string option \<Rightarrow> string" where
  \<comment> \<open>Lines 77-78: \<^verbatim>\<open>if remote_host: cmd = f"ssh -t {remote_host} '{cmd}'"\<close>.\<close>
  "interactive_command cmd host =
     (case host of
        None \<Rightarrow> cmd
      | Some h \<Rightarrow> if h = [] then cmd else ''ssh -t '' @ h @ '' '' @ squote cmd)"

definition run_interactive :: "world \<Rightarrow> string \<Rightarrow> string option \<Rightarrow> console \<Rightarrow> unit result" where
  "run_interactive w cmd host s =
     (case subprocess_run_inherit w (interactive_command cmd host) s of
        Return rc s' \<Rightarrow> Return () s'
      | Raise KeyboardInterrupt s' \<Rightarrow> Return () s'
      | Raise e s' \<Rightarrow> Raise e s')"

definition DebugToolkit :: "string option \<Rightarrow> string \<Rightarrow> string list \<Rightarrow> console" where
  \<comment> \<open>\<^verbatim>\<open>DebugToolkit(remote_host, namespace)\<close> in a fresh process whose operator is going
      to type the given lines.\<close>
  "DebugToolkit host ns keys =
     \<lparr>remote_host = host, namespace = ns, stdin = keys, tty = [], spawned = [],
      returned = []\<rparr>"

definition run_cmd :: "world \<Rightarrow> string \<Rightarrow> console \<Rightarrow> (int \<times> string) result" where
  "run_cmd w cmd s = run_command w cmd (remote_host s) s"

definition run_interactive_cmd :: "world \<Rightarrow> string \<Rightarrow> console \<Rightarrow> unit result" where
  "run_interactive_cmd w cmd s = run_interactive w cmd (remote_host s) s"


section \<open>Terminal chrome\<close>

definition ESC :: string where
  "ESC = [CHR 0x1B]"

definition RED :: string where "RED = ESC @ ''[0;31m''"
definition GREEN :: string where "GREEN = ESC @ ''[0;32m''"
definition CYAN :: string where "CYAN = ESC @ ''[0;36m''"
definition BOLD :: string where "BOLD = ESC @ ''[1m''"
definition RESET :: string where "RESET = ESC @ ''[0m''"

definition colored :: "string \<Rightarrow> string \<Rightarrow> string" where
  "colored text color = color @ text @ RESET"

definition py_or :: "string \<Rightarrow> string \<Rightarrow> string" where
  \<comment> \<open>\<^verbatim>\<open>a or b\<close> on strings: the default \<open>b\<close> replaces an empty \<open>a\<close>.\<close>
  "py_or a b = (if a = [] then b else a)"

fun do_all :: "(console \<Rightarrow> unit result) list \<Rightarrow> console \<Rightarrow> unit result" where
  \<comment> \<open>A block of statements, run in order.\<close>
  "do_all [] s = Return () s"
| "do_all (m # ms) s = bind m (\<lambda>_. do_all ms) s"

definition print_header :: "string \<Rightarrow> console \<Rightarrow> unit result" where
  "print_header title =
     do_all [py_print [],
             py_print (colored (replicate 50 CHR ''='') CYAN),
             py_print (colored (center title 50) BOLD),
             py_print (colored (replicate 50 CHR ''='') CYAN),
             py_print []]"

definition print_section :: "string \<Rightarrow> console \<Rightarrow> unit result" where
  "print_section title =
     do_all [py_print [],
             py_print (colored (''--- '' @ title @ '' ---'') BOLD),
             py_print []]"

section \<open>Network debugging\<close>

definition ping_test :: "world \<Rightarrow> console \<Rightarrow> unit result" where
  "ping_test w =
     bind (py_input ''Target host/IP: '') (\<lambda>target.
     bind (py_input ''Ping count [5]: '') (\<lambda>count.
     bind (run_cmd w (''ping -c '' @ py_or (strip count) ''5'' @ '' '' @ strip target)) (\<lambda>(code, output).
     py_print output)))"

fun port_scan_each :: "world \<Rightarrow> string \<Rightarrow> string list \<Rightarrow> console \<Rightarrow> unit result" where
  \<comment> \<open>The loop \<^verbatim>\<open>for port in ports.split(","):\<close> of \<^verbatim>\<open>port_scan\<close>.\<close>
  "port_scan_each w target [] s = Return () s"
| "port_scan_each w target (port # ports) s =
     bind (run_cmd w (''nc -zv -w2 '' @ target @ '' '' @ strip port @ '' 2>&1'')) (\<lambda>(code, output).
     bind (py_print (''  Port '' @ strip port @ '': '' @
                     (if code = 0 then colored ''OPEN'' GREEN else colored ''CLOSED'' RED))) (\<lambda>_.
     port_scan_each w target ports)) s"

definition port_scan :: "world \<Rightarrow> console \<Rightarrow> unit result" where
  "port_scan w =
     bind (py_input ''Target host: '') (\<lambda>target.
     bind (py_input ''Ports (comma-separated or range, e.g., 22,80,443 or 1-1000): '') (\<lambda>ports.
     if CHR ''-'' \<in> set (strip ports) then
       bind (py_print ''Scanning port range...'') (\<lambda>_.
       bind (run_cmd w (''nmap -p '' @ strip ports @ '' '' @ strip target @
                        '' 2>/dev/null || echo '' @ squote ''nmap not installed'')) (\<lambda>(code, output).
       Return ()))
     else port_scan_each w (strip target) (split_on CHR '','' (strip ports))))"

definition dns_test :: "world \<Rightarrow> console \<Rightarrow> unit result" where
  "dns_test w =
     bind (py_input ''Hostname to resolve: '') (\<lambda>target.
     bind (py_print ''\<newline>Using system resolver:'') (\<lambda>_.
     bind (run_cmd w (''host '' @ strip target)) (\<lambda>(code, output).
     bind (py_print output) (\<lambda>_.
     bind (py_print ''\<newline>Using dig:'') (\<lambda>_.
     bind (run_cmd w (''dig +short '' @ strip target)) (\<lambda>(code, output).
     py_print (if output \<noteq> [] then output else ''No results'')))))))"

definition traceroute :: "world \<Rightarrow> console \<Rightarrow> unit result" where
  "traceroute w =
     bind (py_input ''Target host: '') (\<lambda>target.
     bind (py_print ''Running traceroute (this may take a moment)...'') (\<lambda>_.
     run_interactive_cmd w (''traceroute -n -m 15 '' @ strip target @
                            '' 2>/dev/null || tracepath '' @ strip target)))"

definition show_connections :: "world \<Rightarrow> console \<Rightarrow> unit result" where
  "show_connections w =
     bind (py_print ''\<newline>Active connections:'') (\<lambda>_.
     bind (run_cmd w ''ss -tunapl 2>/dev/null | head -50'') (\<lambda>(code, output).
     py_print output))"

definition interface_stats :: "world \<Rightarrow> console \<Rightarrow> unit result" where
  "interface_stats w =
     bind (py_print ''\<newline>Interface statistics:'') (\<lambda>_.
     bind (run_cmd w ''ip -s link'') (\<lambda>(code, output).
     py_print output))"

definition tcpdump_capture :: "world \<Rightarrow> console \<Rightarrow> unit result" where
  "tcpdump_capture w =
     bind (py_input ''Interface [any]: '') (\<lambda>interface.
     bind (py_input ''Port filter (optional): '') (\<lambda>port.
     bind (py_input ''Duration in seconds [10]: '') (\<lambda>duration.
     bind (py_print (''\<newline>Capturing for '' @ py_or (strip duration) ''10'' @
                     '' seconds... (Ctrl+C to stop)'')) (\<lambda>_.
     bind (py_print ''Note: Requires root privileges'') (\<lambda>_.
     run_interactive_cmd w
       (''timeout '' @ py_or (strip duration) ''10'' @ '' tcpdump -i '' @
        py_or (strip interface) ''any'' @ '' '' @
        (if strip port \<noteq> [] then ''port '' @ strip port else []) @
        '' -nn 2>/dev/null || echo '' @ squote ''tcpdump requires root''))))))"

definition network_screen :: "console \<Rightarrow> unit result" where
  "network_screen =
     do_all [print_section ''Network Debugging'',
             py_print ''  1) Connectivity test (ping)'',
             py_print ''  2) Port scan'',
             py_print ''  3) DNS resolution'',
             py_print ''  4) Traceroute'',
             py_print ''  5) Active connections'',
             py_print ''  6) Interface statistics'',
             py_print ''  7) TCP dump (capture)'',
             py_print ''  b) Back to main menu'',
             py_print []]"

definition continue :: "(console \<Rightarrow> unit result) \<Rightarrow> console \<Rightarrow> bool result" where
  \<comment> \<open>A branch of a menu loop that runs its action and stays in the loop.\<close>
  "continue m = bind m (\<lambda>_. Return False)"

definition network_choice :: "world \<Rightarrow> string \<Rightarrow> console \<Rightarrow> bool result" where
  \<comment> \<open>The \<^verbatim>\<open>if\<close>/\<^verbatim>\<open>elif\<close> chain of \<^verbatim>\<open>network_menu\<close>; \<open>True\<close> is \<^verbatim>\<open>break\<close>.\<close>
  "network_choice w choice =
     (if choice = ''1'' then continue (ping_test w)
      else if choice = ''2'' then continue (port_scan w)
      else if choice = ''3'' then continue (dns_test w)
      else if choice = ''4'' then continue (traceroute w)
      else if choice = ''5'' then continue (show_connections w)
      else if choice = ''6'' then continue (interface_stats w)
      else if choice = ''7'' then continue (tcpdump_capture w)
      else if lower choice = ''b'' then Return True
      else Return False)"

section \<open>Process debugging\<close>

definition top_by_cpu :: "world \<Rightarrow> console \<Rightarrow> unit result" where
  "top_by_cpu w =
     bind (py_print ''\<newline>Top 15 processes by CPU:'') (\<lambda>_.
     bind (run_cmd w ''ps aux --sort=-%cpu | head -16'') (\<lambda>(code, output).
     py_print output))"

definition top_by_memory :: "world \<Rightarrow> console \<Rightarrow> unit result" where
  "top_by_memory w =
     bind (py_print ''\<newline>Top 15 processes by memory:'') (\<lambda>_.
     bind (run_cmd w ''ps aux --sort=-%mem | head -16'') (\<lambda>(code, output).
     py_print output))"

definition find_process :: "world \<Rightarrow> console \<Rightarrow> unit result" where
  "find_process w =
     bind (py_input ''Process name pattern: '') (\<lambda>name.
     bind (run_cmd w (''ps aux | grep -i '' @ squote (strip name) @ '' | grep -v grep'')) (\<lambda>(code, output).
     py_print (if output \<noteq> [] then output else ''No matching processes'')))"

definition strace_process :: "world \<Rightarrow> console \<Rightarrow> unit result" where
  "strace_process w =
     bind (py_input ''Process ID: '') (\<lambda>pid.
     bind (py_input ''Duration in seconds [5]: '') (\<lambda>duration.
     bind (py_print (''\<newline>Tracing PID '' @ strip pid @ '' for '' @
                     py_or (strip duration) ''5'' @ '' seconds...'')) (\<lambda>_.
     bind (py_print ''Note: Requires root privileges'') (\<lambda>_.
     run_interactive_cmd w (''timeout '' @ py_or (strip duration) ''5'' @ '' strace -p '' @
                            strip pid @ '' 2>&1 | head -100'')))))"

definition open_files :: "world \<Rightarrow> console \<Rightarrow> unit result" where
  "open_files w =
     bind (py_input ''Process ID or name: '') (\<lambda>pid_or_name.
     bind (if isdigit (strip pid_or_name)
           then run_cmd w (''ls -la /proc/'' @ strip pid_or_name @ ''/fd 2>/dev/null | head -50'')
           else run_cmd w (''lsof -c '' @ strip pid_or_name @ '' 2>/dev/null | head -50'')) (\<lambda>(code, output).
     py_print (if output \<noteq> [] then output else ''No results (may require root)'')))"

definition thread_analysis :: "world \<Rightarrow> console \<Rightarrow> unit result" where
  "thread_analysis w =
     bind (py_input ''Process ID: '') (\<lambda>pid.
     bind (run_cmd w (''ps -T -p '' @ strip pid)) (\<lambda>(code, output).
     py_print output))"

definition zombie_processes :: "world \<Rightarrow> console \<Rightarrow> unit result" where
  "zombie_processes w =
     bind (run_cmd w (''ps aux | awk '' @ squote ''$8 ~ /Z/ {print}'')) (\<lambda>(code, output).
     if output \<noteq> [] then
       bind (py_print ''\<newline>Zombie processes found:'') (\<lambda>_.
       py_print output)
     else py_print (colored ''\<newline>No zombie processes'' GREEN))"

definition process_screen :: "console \<Rightarrow> unit result" where
  "process_screen =
     do_all [print_section ''Process Debugging'',
             py_print ''  1) Top processes by CPU'',
             py_print ''  2) Top processes by memory'',
             py_print ''  3) Find process by name'',
             py_print ''  4) Process details (strace)'',
             py_print ''  5) Open files by process'',
             py_print ''  6) Thread analysis'',
             py_print ''  7) Zombie processes'',
             py_print ''  b) Back to main menu'',
             py_print []]"

definition process_choice :: "world \<Rightarrow> string \<Rightarrow> console \<Rightarrow> bool result" where
  \<comment> \<open>The \<^verbatim>\<open>if\<close>/\<^verbatim>\<open>elif\<close> chain of \<^verbatim>\<open>process_menu\<close>; \<open>True\<close> is \<^verbatim>\<open>break\<close>.\<close>
  "process_choice w choice =
     (if choice = ''1'' then continue (top_by_cpu w)
      else if choice = ''2'' then continue (top_by_memory w)
      else if choice = ''3'' then continue (find_process w)
      else if choice = ''4'' then continue (strace_process w)
      else if choice = ''5'' then continue (open_files w)
      else if choice = ''6'' then continue (thread_analysis w)
      else if choice = ''7'' then continue (zombie_processes w)
      else if lower choice = ''b'' then Return True
      else Return False)"

section \<open>Log analysis\<close>

definition journalctl_menu :: "world \<Rightarrow> console \<Rightarrow> unit result" where
  "journalctl_menu w =
     bind (do_all [py_print ''\<newline>  1) Last 100 lines'',
                   py_print ''  2) Since 1 hour ago'',
                   py_print ''  3) Since boot'',
                   py_print ''  4) Follow (live)'',
                   py_print ''  5) Specific unit'']) (\<lambda>_.
     bind (py_input ''Choice: '') (\<lambda>line.
     if strip line = ''1'' then run_interactive_cmd w ''journalctl -n 100 --no-pager''
     else if strip line = ''2'' then
       run_interactive_cmd w (''journalctl --since '' @ squote ''1 hour ago'' @ '' --no-pager | tail -200'')
     else if strip line = ''3'' then run_interactive_cmd w ''journalctl -b --no-pager | tail -200''
     else if strip line = ''4'' then run_interactive_cmd w ''journalctl -f''
     else if strip line = ''5'' then
       bind (py_input ''Unit name: '') (\<lambda>unit.
       run_interactive_cmd w (''journalctl -u '' @ strip unit @ '' -n 100 --no-pager''))
     else Return ()))"

definition auth_logs :: "world \<Rightarrow> console \<Rightarrow> unit result" where
  "auth_logs w =
     bind (run_cmd w ''tail -100 /var/log/auth.log 2>/dev/null || tail -100 /var/log/secure 2>/dev/null'') (\<lambda>(code, output).
     py_print (if output \<noteq> [] then output else ''Auth log not found''))"

definition dmesg_logs :: "world \<Rightarrow> console \<Rightarrow> unit result" where
  "dmesg_logs w =
     bind (do_all [py_print ''\<newline>  1) All messages'',
                   py_print ''  2) Errors only'',
                   py_print ''  3) Hardware messages'']) (\<lambda>_.
     bind (py_input ''Choice: '') (\<lambda>line.
     if strip line = ''1'' then
       bind (run_cmd w ''dmesg -T 2>/dev/null | tail -100'') (\<lambda>(code, output). py_print output)
     else if strip line = ''2'' then
       bind (run_cmd w ''dmesg -T --level=err,crit,alert,emerg 2>/dev/null'') (\<lambda>(code, output). py_print output)
     else if strip line = ''3'' then
       bind (run_cmd w (''dmesg -T 2>/dev/null | grep -iE '' @ squote ''disk|memory|cpu|hardware|error'')) (\<lambda>(code, output).
       py_print output)
     else Return ()))"

definition search_logs :: "world \<Rightarrow> console \<Rightarrow> unit result" where
  "search_logs w =
     bind (py_input ''Search pattern: '') (\<lambda>pattern.
     bind (py_input (''Since (e.g., '' @ squote ''1 hour ago'' @ '', '' @ squote ''2024-01-01'' @
                     '') [1 hour ago]: '')) (\<lambda>since.
     bind (run_cmd w (''journalctl --since '' @ squote (py_or (strip since) ''1 hour ago'') @
                      '' --no-pager | grep -i '' @ squote (strip pattern) @ '' | tail -100'')) (\<lambda>(code, output).
     py_print (if output \<noteq> [] then output else ''No matches found''))))"

definition failed_services :: "world \<Rightarrow> console \<Rightarrow> unit result" where
  "failed_services w =
     bind (run_cmd w ''systemctl --failed --no-pager'') (\<lambda>(code, output).
     py_print output)"

definition recent_errors :: "world \<Rightarrow> console \<Rightarrow> unit result" where
  "recent_errors w =
     bind (run_cmd w (''journalctl -p err --since '' @ squote ''1 hour ago'' @ '' --no-pager | tail -50'')) (\<lambda>(code, output).
     py_print (if output \<noteq> [] then output else ''No errors in the last hour''))"

definition log_screen :: "console \<Rightarrow> unit result" where
  "log_screen =
     do_all [print_section ''Log Analysis'',
             py_print ''  1) System logs (journalctl)'',
             py_print ''  2) Auth/security logs'',
             py_print ''  3) Kernel messages (dmesg)'',
             py_print ''  4) Search logs by pattern'',
             py_print ''  5) Failed services'',
             py_print ''  6) Recent errors'',
             py_print ''  b) Back to main menu'',
             py_print []]"

definition log_choice :: "world \<Rightarrow> string \<Rightarrow> console \<Rightarrow> bool result" where
  \<comment> \<open>The \<^verbatim>\<open>if\<close>/\<^verbatim>\<open>elif\<close> chain of \<^verbatim>\<open>log_menu\<close>; \<open>True\<close> is \<^verbatim>\<open>break\<close>.\<close>
  "log_choice w choice =
     (if choice = ''1'' then continue (journalctl_menu w)
      else if choice = ''2'' then continue (auth_logs w)
      else if choice = ''3'' then continue (dmesg_logs w)
      else if choice = ''4'' then continue (search_logs w)
      else if choice = ''5'' then continue (failed_services w)
      else if choice = ''6'' then continue (recent_errors w)
      else if lower choice = ''b'' then Return True
      else Return False)"

section \<open>Resource analysis\<close>

definition memory_details :: "world \<Rightarrow> console \<Rightarrow> unit result" where
  "memory_details w =
     bind (py_print ''\<newline>Memory Summary:'') (\<lambda>_.
     bind (run_cmd w ''free -h'') (\<lambda>(code, output).
     bind (py_print output) (\<lambda>_.
     bind (py_print ''\<newline>Top memory consumers:'') (\<lambda>_.
     bind (run_cmd w ''ps aux --sort=-%mem | head -10'') (\<lambda>(code, output).
     py_print output)))))"

definition disk_usage :: "world \<Rightarrow> console \<Rightarrow> unit result" where
  "disk_usage w =
     bind (py_print ''\<newline>Filesystem usage:'') (\<lambda>_.
     bind (run_cmd w ''df -h'') (\<lambda>(code, output).
     bind (py_print output) (\<lambda>_.
     bind (py_print ''\<newline>Largest directories in /:'') (\<lambda>_.
     bind (run_cmd w ''du -sh /* 2>/dev/null | sort -rh | head -10'') (\<lambda>(code, output).
     py_print output)))))"

definition meminfo_lines :: "string \<Rightarrow> string \<Rightarrow> string option" where
  \<comment> \<open>The dictionary \<^verbatim>\<open>{l.split(':')[0].strip(): l.split(':')[1].strip() for l in output.split('\n') if ':' in l}\<close>:
      a later line replaces an earlier one with the same key. The two indices are in
      range, since the line holds a colon.\<close>
  "meminfo_lines output =
     map_of (rev (map (\<lambda>l. (strip (split_on CHR '':'' l ! 0), strip (split_on CHR '':'' l ! 1)))
                   (filter (\<lambda>l. CHR '':'' \<in> set l) (split_on CHR 0x0A output))))"

definition dict_get :: "(string \<Rightarrow> string option) \<Rightarrow> string \<Rightarrow> string \<Rightarrow> string" where
  \<comment> \<open>\<^verbatim>\<open>d.get(key, default)\<close>\<close>
  "dict_get d k dflt = (case d k of None \<Rightarrow> dflt | Some v \<Rightarrow> v)"

definition memory_pressure :: "world \<Rightarrow> console \<Rightarrow> unit result" where
  "memory_pressure w =
     bind (run_cmd w ''cat /proc/meminfo'') (\<lambda>(code, output).
     do_all [py_print ''\<newline>Memory Pressure Analysis:'',
             py_print (''  MemTotal:     '' @ dict_get (meminfo_lines output) ''MemTotal'' ''N/A''),
             py_print (''  MemFree:      '' @ dict_get (meminfo_lines output) ''MemFree'' ''N/A''),
             py_print (''  MemAvailable: '' @ dict_get (meminfo_lines output) ''MemAvailable'' ''N/A''),
             py_print (''  Buffers:      '' @ dict_get (meminfo_lines output) ''Buffers'' ''N/A''),
             py_print (''  Cached:       '' @ dict_get (meminfo_lines output) ''Cached'' ''N/A''),
             py_print (''  SwapTotal:    '' @ dict_get (meminfo_lines output) ''SwapTotal'' ''N/A''),
             py_print (''  SwapFree:     '' @ dict_get (meminfo_lines output) ''SwapFree'' ''N/A'')])"

definition cpu_info :: "world \<Rightarrow> console \<Rightarrow> unit result" where
  "cpu_info w =
     bind (run_cmd w ''lscpu'') (\<lambda>(code, output).
     py_print output)"

definition io_stats :: "world \<Rightarrow> console \<Rightarrow> unit result" where
  "io_stats w =
     bind (run_cmd w (''iostat -x 1 3 2>/dev/null || echo '' @ squote ''iostat not installed'')) (\<lambda>(code, output).
     py_print output)"

definition resource_screen :: "console \<Rightarrow> unit result" where
  "resource_screen =
     do_all [print_section ''Resource Analysis'',
             py_print ''  1) Real-time monitoring (top)'',
             py_print ''  2) Memory details'',
             py_print ''  3) Disk I/O (iotop)'',
             py_print ''  4) Disk usage'',
             py_print ''  5) Memory pressure'',
             py_print ''  6) CPU info'',
             py_print ''  7) I/O stats'',
             py_print ''  b) Back to main menu'',
             py_print []]"

definition resource_choice :: "world \<Rightarrow> string \<Rightarrow> console \<Rightarrow> bool result" where
  \<comment> \<open>The \<^verbatim>\<open>if\<close>/\<^verbatim>\<open>elif\<close> chain of \<^verbatim>\<open>resource_menu\<close>; \<open>True\<close> is \<^verbatim>\<open>break\<close>.\<close>
  "resource_choice w choice =
     (if choice = ''1'' then continue (run_interactive_cmd w ''top'')
      else if choice = ''2'' then continue (memory_details w)
      else if choice = ''3'' then
        continue (run_interactive_cmd w (''iotop -a 2>/dev/null || echo '' @
                                         squote ''iotop not installed (requires root)''))
      else if choice = ''4'' then continue (disk_usage w)
      else if choice = ''5'' then continue (memory_pressure w)
      else if choice = ''6'' then continue (cpu_info w)
      else if choice = ''7'' then continue (io_stats w)
      else if lower choice = ''b'' then Return True
      else Return False)"

section \<open>Kubernetes debugging\<close>

definition get_namespace :: "console \<Rightarrow> string result" where
  \<comment> \<open>Reading \<^verbatim>\<open>self.namespace\<close>.\<close>
  "get_namespace s = Return (namespace s) s"

definition set_namespace :: "string \<Rightarrow> console \<Rightarrow> unit result" where
  \<comment> \<open>The assignment \<^verbatim>\<open>self.namespace = ns\<close>.\<close>
  "set_namespace ns s = Return () (s\<lparr>namespace := ns\<rparr>)"

definition k8s_pod_status :: "world \<Rightarrow> console \<Rightarrow> unit result" where
  "k8s_pod_status w =
     bind get_namespace (\<lambda>ns.
     bind (run_cmd w (''kubectl get pods -n '' @ ns @ '' -o wide'')) (\<lambda>(code, output).
     py_print output))"

definition k8s_logs :: "world \<Rightarrow> console \<Rightarrow> unit result" where
  "k8s_logs w =
     bind get_namespace (\<lambda>ns.
     bind (run_cmd w (''kubectl get pods -n '' @ ns @ '' --no-headers'')) (\<lambda>(code, output).
     bind (py_print ''Available pods:'') (\<lambda>_.
     bind (py_print output) (\<lambda>_.
     bind (py_input ''\<newline>Pod name: '') (\<lambda>pod.
     bind (py_input ''Container (optional): '') (\<lambda>container.
     bind (do_all [py_print ''\<newline>  1) Last 100 lines'',
                   py_print ''  2) Follow'',
                   py_print ''  3) Previous container'']) (\<lambda>_.
     bind (py_input ''Choice: '') (\<lambda>line.
     if strip line = ''1'' then
       bind get_namespace (\<lambda>ns.
       bind (run_cmd w (''kubectl logs '' @ strip pod @ '' -n '' @ ns @ '' '' @
                        (if strip container \<noteq> [] then ''-c '' @ strip container else []) @
                        '' --tail=100'')) (\<lambda>(code, output).
       py_print output))
     else if strip line = ''2'' then
       bind get_namespace (\<lambda>ns.
       run_interactive_cmd w (''kubectl logs '' @ strip pod @ '' -n '' @ ns @ '' '' @
                              (if strip container \<noteq> [] then ''-c '' @ strip container else []) @
                              '' -f''))
     else if strip line = ''3'' then
       bind get_namespace (\<lambda>ns.
       bind (run_cmd w (''kubectl logs '' @ strip pod @ '' -n '' @ ns @ '' '' @
                        (if strip container \<noteq> [] then ''-c '' @ strip container else []) @
                        '' --previous --tail=100'')) (\<lambda>(code, output).
       py_print output))
     else Return ()))))))))"

definition k8s_exec :: "world \<Rightarrow> console \<Rightarrow> unit result" where
  "k8s_exec w =
     bind (py_input ''Pod name: '') (\<lambda>pod.
     bind (py_input ''Shell [/bin/sh]: '') (\<lambda>shell.
     bind get_namespace (\<lambda>ns.
     run_interactive_cmd w (''kubectl exec -it '' @ strip pod @ '' -n '' @ ns @ '' -- '' @
                            py_or (strip shell) ''/bin/sh''))))"

definition k8s_describe :: "world \<Rightarrow> console \<Rightarrow> unit result" where
  "k8s_describe w =
     bind (py_input ''Resource type [pod]: '') (\<lambda>resource.
     bind (py_input ''Resource name: '') (\<lambda>name.
     bind get_namespace (\<lambda>ns.
     run_interactive_cmd w (''kubectl describe '' @ py_or (strip resource) ''pod'' @ '' '' @
                            strip name @ '' -n '' @ ns @ '' | less''))))"

definition k8s_port_forward :: "world \<Rightarrow> console \<Rightarrow> unit result" where
  "k8s_port_forward w =
     bind (py_input ''Pod name: '') (\<lambda>pod.
     bind (py_input ''Ports (local:remote, e.g., 8080:80): '') (\<lambda>ports.
     bind (py_print ''Port forwarding... Press Ctrl+C to stop'') (\<lambda>_.
     bind get_namespace (\<lambda>ns.
     run_interactive_cmd w (''kubectl port-forward '' @ strip pod @ '' -n '' @ ns @ '' '' @
                            strip ports)))))"

definition k8s_events :: "world \<Rightarrow> console \<Rightarrow> unit result" where
  "k8s_events w =
     bind get_namespace (\<lambda>ns.
     bind (run_cmd w (''kubectl get events -n '' @ ns @ '' --sort-by='' @
                      squote ''.lastTimestamp'' @ '' | tail -30'')) (\<lambda>(code, output).
     py_print output))"

definition k8s_nodes :: "world \<Rightarrow> console \<Rightarrow> unit result" where
  "k8s_nodes w =
     bind (run_cmd w ''kubectl get nodes -o wide'') (\<lambda>(code, output).
     bind (py_print output) (\<lambda>_.
     bind (py_print ''\<newline>Node conditions:'') (\<lambda>_.
     bind (run_cmd w (''kubectl get nodes -o jsonpath='' @
                      squote (''{range .items[*]}{.metadata.name}: {.status.conditions[-1].type}={.status.conditions[-1].status}{'' @
                              [CHR 0x22, CHR 0x5C, CHR ''n'', CHR 0x22] @ ''}{end}''))) (\<lambda>(code, output).
     py_print output))))"

definition change_namespace :: "world \<Rightarrow> console \<Rightarrow> unit result" where
  "change_namespace w =
     bind (run_cmd w (''kubectl get ns --no-headers | awk '' @ squote ''{print $1}'')) (\<lambda>(code, output).
     bind (py_print ''Available namespaces:'') (\<lambda>_.
     bind (py_print output) (\<lambda>_.
     bind (py_input ''\<newline>New namespace: '') (\<lambda>ns.
     bind (set_namespace (strip ns)) (\<lambda>_.
     py_print (colored (''Switched to namespace: '' @ strip ns) GREEN))))))"

definition k8s_screen :: "console \<Rightarrow> unit result" where
  "k8s_screen =
     bind get_namespace (\<lambda>ns.
     do_all [print_section (''Kubernetes Debugging (ns: '' @ ns @ '')''),
             py_print ''  1) Pod status'',
             py_print ''  2) Get pod logs'',
             py_print ''  3) Exec into pod'',
             py_print ''  4) Describe pod'',
             py_print ''  5) Port forward'',
             py_print ''  6) Recent events'',
             py_print ''  7) Node status'',
             py_print ''  8) Change namespace'',
             py_print ''  b) Back to main menu'',
             py_print []])"

definition k8s_choice :: "world \<Rightarrow> string \<Rightarrow> console \<Rightarrow> bool result" where
  \<comment> \<open>The \<^verbatim>\<open>if\<close>/\<^verbatim>\<open>elif\<close> chain of \<^verbatim>\<open>k8s_menu\<close>; \<open>True\<close> is \<^verbatim>\<open>break\<close>.\<close>
  "k8s_choice w choice =
     (if choice = ''1'' then continue (k8s_pod_status w)
      else if choice = ''2'' then continue (k8s_logs w)
      else if choice = ''3'' then continue (k8s_exec w)
      else if choice = ''4'' then continue (k8s_describe w)
      else if choice = ''5'' then continue (k8s_port_forward w)
      else if choice = ''6'' then continue (k8s_events w)
      else if choice = ''7'' then continue (k8s_nodes w)
      else if choice = ''8'' then continue (change_namespace w)
      else if lower choice = ''b'' then Return True
      else Return False)"

section \<open>What every statement leaves alone\<close>

text \<open>
  \<open>frame s s'\<close>: from \<open>s\<close> to \<open>s'\<close> the \<^verbatim>\<open>DebugToolkit\<close> object is unchanged, input has
  only been consumed, and the terminal and the two logs have only grown. \<open>frame_ns\<close>
  allows one more change: the namespace may have become the stripped text of a line the
  operator typed.
\<close>

definition frame :: "console \<Rightarrow> console \<Rightarrow> bool" where
  "frame s s' \<longleftrightarrow>
     remote_host s' = remote_host s \<and> namespace s' = namespace s \<and>
     suffix (stdin s') (stdin s) \<and> prefix (tty s) (tty s') \<and>
     prefix (spawned s) (spawned s') \<and> prefix (returned s) (returned s')"

definition frame_ns :: "console \<Rightarrow> console \<Rightarrow> bool" where
  "frame_ns s s' \<longleftrightarrow>
     remote_host s' = remote_host s \<and>
     (namespace s' = namespace s \<or> namespace s' \<in> strip ` set (stdin s)) \<and>
     suffix (stdin s') (stdin s) \<and> prefix (tty s) (tty s') \<and>
     prefix (spawned s) (spawned s') \<and> prefix (returned s) (returned s')"

definition preserves :: "(console \<Rightarrow> console \<Rightarrow> bool) \<Rightarrow> (console \<Rightarrow> 'a result) \<Rightarrow> bool" where
  \<comment> \<open>Whether the statement returns or raises, the state it leaves is related to the
      state it started in.\<close>
  "preserves R m \<longleftrightarrow> (\<forall>s. R s (state_of (m s)))"

lemma frame_refl: "reflp frame"
  by (simp add: reflp_def frame_def)

lemma frame_trans: "transp frame"
  unfolding transp_def frame_def
  by (metis suffix_order.trans prefix_order.trans)

lemma frame_imp_frame_ns: "frame s s' \<Longrightarrow> frame_ns s s'"
  by (simp add: frame_def frame_ns_def)

lemma frame_ns_refl: "reflp frame_ns"
  by (simp add: reflp_def frame_ns_def)

lemma frame_ns_trans: "transp frame_ns"
proof (rule transpI)
  fix s s' s''
  assume a: "frame_ns s s'" and b: "frame_ns s' s''"
  from a have "set (stdin s') \<subseteq> set (stdin s)"
    by (simp add: frame_ns_def set_mono_suffix)
  then have "strip ` set (stdin s') \<subseteq> strip ` set (stdin s)"
    by blast
  with a b have "namespace s'' = namespace s \<or> namespace s'' \<in> strip ` set (stdin s)"
    unfolding frame_ns_def by auto
  moreover from a b have "remote_host s'' = remote_host s" "suffix (stdin s'') (stdin s)"
    "prefix (tty s) (tty s'')" "prefix (spawned s) (spawned s'')"
    "prefix (returned s) (returned s'')"
    unfolding frame_ns_def
    by (auto intro: suffix_order.trans prefix_order.trans)
  ultimately show "frame_ns s s''"
    by (simp add: frame_ns_def)
qed


lemma preserves_frame_ns: "preserves frame m \<Longrightarrow> preserves frame_ns m"
  by (simp add: preserves_def frame_imp_frame_ns)

lemma preserves_bind:
  assumes "transp R" "preserves R m" "\<And>a. preserves R (f a)"
  shows "preserves R (bind m f)"
  unfolding preserves_def
proof
  fix s
  show "R s (state_of (bind m f s))"
  proof (cases "m s")
    case (Return a s1)
    from assms(2) have "R s (state_of (m s))"
      unfolding preserves_def by blast
    with Return have "R s s1" by simp
    moreover from assms(3) have "R s1 (state_of (f a s1))"
      unfolding preserves_def by blast
    ultimately show ?thesis
      using assms(1) Return by (auto simp: bind_def dest: transpD)
  next
    case (Raise e s1)
    from assms(2) have "R s (state_of (m s))"
      unfolding preserves_def by blast
    with Raise show ?thesis by (simp add: bind_def)
  qed
qed

lemma preserves_Return: "reflp R \<Longrightarrow> preserves R (Return a)"
  by (simp add: preserves_def reflpD)

lemma preserves_if:
  "preserves R m \<Longrightarrow> preserves R m' \<Longrightarrow> preserves R (if b then m else m')"
  by simp

lemma preserves_case_prod:
  "(\<And>a b. preserves R (f a b)) \<Longrightarrow> preserves R (case_prod f p)"
  by (cases p) simp

lemma preserves_do_all:
  assumes "reflp R" "transp R" "list_all (preserves R) ms"
  shows "preserves R (do_all ms)"
  using assms(3)
proof (induction ms)
  case Nil
  have "do_all [] = Return ()" by (rule ext) simp
  then show ?case using assms(1) by (simp add: preserves_Return)
next
  case (Cons m ms)
  have "do_all (m # ms) = bind m (\<lambda>_. do_all ms)" by (rule ext) simp
  with Cons assms(2) show ?case by (simp add: preserves_bind)
qed

lemma preserves_continue:
  "reflp R \<Longrightarrow> transp R \<Longrightarrow> preserves R m \<Longrightarrow> preserves R (continue m)"
  unfolding continue_def by (intro preserves_bind preserves_Return)

lemma frame_py_print: "preserves frame (py_print t)"
  by (simp add: preserves_def py_print_def frame_def)

lemma frame_py_input: "preserves frame (py_input p)"
  by (auto simp: preserves_def py_input_def frame_def Let_def suffix_Cons split: list.splits)

lemma frame_run_cmd: "preserves frame (run_cmd w c)"
  by (auto simp: preserves_def run_cmd_def run_command_def subprocess_run_capture_def
      give_def frame_def Let_def split: behaviour.splits py_exception.splits)

lemma frame_run_interactive_cmd: "preserves frame (run_interactive_cmd w c)"
  by (auto simp: preserves_def run_interactive_cmd_def run_interactive_def
      subprocess_run_inherit_def frame_def Let_def
      split: behaviour.splits py_exception.splits)

lemma frame_get_namespace: "preserves frame get_namespace"
  by (simp add: preserves_def get_namespace_def frame_def)

lemmas frame_intros =
  preserves_bind [OF frame_trans] preserves_Return [OF frame_refl] preserves_if
  preserves_case_prod preserves_do_all [OF frame_refl frame_trans]
  preserves_continue [OF frame_refl frame_trans]
  frame_py_print frame_py_input frame_run_cmd frame_run_interactive_cmd frame_get_namespace

lemma frame_print_section: "preserves frame (print_section t)"
  unfolding print_section_def by (intro frame_intros) (simp add: frame_intros)

lemma frame_print_header: "preserves frame (print_header t)"
  unfolding print_header_def by (intro frame_intros) (simp add: frame_intros)

lemma frame_port_scan_each: "preserves frame (port_scan_each w target ports)"
proof (induction ports)
  case Nil
  have "port_scan_each w target [] = Return ()" by (rule ext) simp
  then show ?case by (simp add: frame_intros)
next
  case (Cons p ps)
  have "port_scan_each w target (p # ps) =
     bind (run_cmd w (''nc -zv -w2 '' @ target @ '' '' @ strip p @ '' 2>&1'')) (\<lambda>(code, output).
     bind (py_print (''  Port '' @ strip p @ '': '' @
                     (if code = 0 then colored ''OPEN'' GREEN else colored ''CLOSED'' RED))) (\<lambda>_.
     port_scan_each w target ps))"
    by (rule ext) simp
  with Cons show ?case by (auto intro!: frame_intros)
qed

lemma frame_network_actions:
  "preserves frame (ping_test w)" "preserves frame (port_scan w)"
  "preserves frame (dns_test w)" "preserves frame (traceroute w)"
  "preserves frame (show_connections w)" "preserves frame (interface_stats w)"
  "preserves frame (tcpdump_capture w)"
  unfolding ping_test_def port_scan_def dns_test_def traceroute_def show_connections_def
    interface_stats_def tcpdump_capture_def
  by (intro frame_intros frame_port_scan_each)+

lemma frame_process_actions:
  "preserves frame (top_by_cpu w)" "preserves frame (top_by_memory w)"
  "preserves frame (find_process w)" "preserves frame (strace_process w)"
  "preserves frame (open_files w)" "preserves frame (thread_analysis w)"
  "preserves frame (zombie_processes w)"
  unfolding top_by_cpu_def top_by_memory_def find_process_def strace_process_def
    open_files_def thread_analysis_def zombie_processes_def
  by (intro frame_intros)+

lemma frame_log_actions:
  "preserves frame (journalctl_menu w)" "preserves frame (auth_logs w)"
  "preserves frame (dmesg_logs w)" "preserves frame (search_logs w)"
  "preserves frame (failed_services w)" "preserves frame (recent_errors w)"
  unfolding journalctl_menu_def auth_logs_def dmesg_logs_def search_logs_def
    failed_services_def recent_errors_def
  by (intro frame_intros; simp add: frame_intros)+

lemma frame_resource_actions:
  "preserves frame (memory_details w)" "preserves frame (disk_usage w)"
  "preserves frame (memory_pressure w)" "preserves frame (cpu_info w)"
  "preserves frame (io_stats w)"
  unfolding memory_details_def disk_usage_def memory_pressure_def cpu_info_def io_stats_def
  by (intro frame_intros; simp add: frame_intros)+

lemma frame_k8s_actions:
  "preserves frame (k8s_pod_status w)" "preserves frame (k8s_logs w)"
  "preserves frame (k8s_exec w)" "preserves frame (k8s_describe w)"
  "preserves frame (k8s_port_forward w)" "preserves frame (k8s_events w)"
  "preserves frame (k8s_nodes w)"
  unfolding k8s_pod_status_def k8s_logs_def k8s_exec_def k8s_describe_def
    k8s_port_forward_def k8s_events_def k8s_nodes_def
  by (intro frame_intros; simp add: frame_intros)+

lemma frame_screens:
  "preserves frame network_screen" "preserves frame process_screen"
  "preserves frame log_screen" "preserves frame resource_screen" "preserves frame k8s_screen"
  unfolding network_screen_def process_screen_def log_screen_def resource_screen_def
    k8s_screen_def
  by (intro frame_intros; simp add: frame_intros frame_print_section)+

lemma frame_choices:
  "preserves frame (network_choice w c)" "preserves frame (process_choice w c)"
  "preserves frame (log_choice w c)" "preserves frame (resource_choice w c)"
  unfolding network_choice_def process_choice_def log_choice_def resource_choice_def
  by (intro frame_intros frame_network_actions frame_process_actions frame_log_actions
      frame_resource_actions)+

lemma frame_ns_change_namespace: "preserves frame_ns (change_namespace w)"
proof -
  have last: "preserves frame_ns
      (bind (py_input p) (\<lambda>ns. bind (set_namespace (strip ns)) (\<lambda>_. py_print (t ns))))" for p t
    by (auto simp: preserves_def bind_def py_input_def set_namespace_def py_print_def
        frame_ns_def Let_def suffix_Cons split: list.splits)
  have run: "preserves frame_ns (run_cmd w c)" for c
    by (rule preserves_frame_ns [OF frame_run_cmd])
  have pr: "preserves frame_ns (py_print t)" for t
    by (rule preserves_frame_ns [OF frame_py_print])
  show ?thesis
    unfolding change_namespace_def
    by (intro preserves_bind [OF frame_ns_trans] preserves_case_prod run pr last)
qed

lemma frame_ns_k8s_actions:
  "preserves frame_ns (k8s_pod_status w)" "preserves frame_ns (k8s_logs w)"
  "preserves frame_ns (k8s_exec w)" "preserves frame_ns (k8s_describe w)"
  "preserves frame_ns (k8s_port_forward w)" "preserves frame_ns (k8s_events w)"
  "preserves frame_ns (k8s_nodes w)"
  by (intro preserves_frame_ns frame_k8s_actions)+

lemma frame_ns_k8s_choice: "preserves frame_ns (k8s_choice w c)"
  unfolding k8s_choice_def
  by (intro preserves_if preserves_continue [OF frame_ns_refl frame_ns_trans]
      preserves_Return [OF frame_ns_refl] frame_ns_change_namespace frame_ns_k8s_actions)

lemma frame_ns_k8s_screen: "preserves frame_ns k8s_screen"
  by (rule preserves_frame_ns [OF frame_screens(5)])

lemma read_choice_shrinks:
  assumes "preserves R screen" and "\<And>s s'. R s s' \<Longrightarrow> suffix (stdin s') (stdin s)"
    and "bind screen (\<lambda>_. py_input p) s = Return line s1"
  shows "length (stdin s1) < length (stdin s)"
proof -
  from assms(3) obtain u s0 where a: "screen s = Return u s0"
    and b: "py_input p s0 = Return line s1"
    by (auto simp: bind_def split: result.splits)
  from assms(1) have "R s (state_of (screen s))"
    unfolding preserves_def by blast
  with a assms(2) have "suffix (stdin s0) (stdin s)" by simp
  then have "length (stdin s0) \<le> length (stdin s)" by (rule suffix_length_le)
  moreover from b have "length (stdin s1) < length (stdin s0)"
    by (auto simp: py_input_def Let_def split: list.splits)
  ultimately show ?thesis by simp
qed

lemma choice_shrinks:
  assumes "preserves R m" and "\<And>s s'. R s s' \<Longrightarrow> suffix (stdin s') (stdin s)"
    and "m s = Return b s'"
  shows "length (stdin s') \<le> length (stdin s)"
proof -
  from assms(1) have "R s (state_of (m s))"
    unfolding preserves_def by blast
  with assms(2,3) have "suffix (stdin s') (stdin s)" by simp
  then show ?thesis by (rule suffix_length_le)
qed

lemma frame_stdin: "frame s s' \<Longrightarrow> suffix (stdin s') (stdin s)"
  by (simp add: frame_def)

lemma frame_ns_stdin: "frame_ns s s' \<Longrightarrow> suffix (stdin s') (stdin s)"
  by (simp add: frame_ns_def)

lemma loop_step:
  assumes tr: "transp R"
    and rd: "preserves R rd"
    and ch: "\<And>line. preserves R (ch line)"
    and unfold: "result =
      (case rd s of
         Raise e s1 \<Rightarrow> Raise e s1
       | Return line s1 \<Rightarrow>
           (case ch line s1 of
              Raise e s2 \<Rightarrow> Raise e s2
            | Return break s2 \<Rightarrow> if break then Return () s2 else loop s2))"
    and IH: "\<And>line s1 break s2. rd s = Return line s1 \<Longrightarrow> ch line s1 = Return break s2 \<Longrightarrow>
               \<not> break \<Longrightarrow> R s2 (state_of (loop s2))"
  shows "R s (state_of result)"
proof (cases "rd s")
  case (Raise e s1)
  from rd have "R s (state_of (rd s))" unfolding preserves_def by blast
  with Raise unfold show ?thesis by simp
next
  case (Return line s1)
  from rd have "R s (state_of (rd s))" unfolding preserves_def by blast
  with Return have a: "R s s1" by simp
  from ch have b: "R s1 (state_of (ch line s1))" unfolding preserves_def by blast
  show ?thesis
  proof (cases "ch line s1")
    case (Raise e s2)
    with a b Return unfold tr show ?thesis by (auto dest: transpD)
  next
    case r: (Return break s2)
    with a b tr have c: "R s s2" by (auto dest: transpD)
    show ?thesis
    proof (cases break)
      case True
      with c r Return unfold show ?thesis by simp
    next
      case False
      with IH [OF Return r] have "R s2 (state_of (loop s2))" by simp
      with c tr have "R s (state_of (loop s2))" by (auto dest: transpD)
      with False r Return unfold show ?thesis by simp
    qed
  qed
qed

section \<open>The menu loops\<close>

text \<open>
  Each \<^verbatim>\<open>while True:\<close> loop is a recursive function. Every turn of a loop reads one line,
  and no action gives a line back, so the loops end when the operator's lines do: with
  \<^verbatim>\<open>EOFError\<close>, unless a \<^verbatim>\<open>break\<close> came first.
\<close>

function network_menu :: "world \<Rightarrow> console \<Rightarrow> unit result" where
  "network_menu w s =
     (case bind network_screen (\<lambda>_. py_input ''Enter choice: '') s of
        Raise e s1 \<Rightarrow> Raise e s1
      | Return line s1 \<Rightarrow>
          (case network_choice w (strip line) s1 of
             Raise e s2 \<Rightarrow> Raise e s2
           | Return break s2 \<Rightarrow> if break then Return () s2 else network_menu w s2))"
  by pat_completeness auto
termination
proof (relation "measure (\<lambda>(w, s). length (stdin s))")
  show "wf (measure (\<lambda>(w, s). length (stdin s)))" by simp
next
  fix w s line s1 break s2
  assume "bind network_screen (\<lambda>_. py_input ''Enter choice: '') s = Return line s1"
    and "network_choice w (strip line) s1 = Return break s2"
  then have "length (stdin s1) < length (stdin s)" "length (stdin s2) \<le> length (stdin s1)"
    by (auto intro: read_choice_shrinks [OF frame_screens(1) frame_stdin]
        choice_shrinks [OF frame_choices(1) frame_stdin])
  then show "((w, s2), (w, s)) \<in> measure (\<lambda>(w, s). length (stdin s))" by simp
qed

declare network_menu.simps [simp del]

lemma frame_network_menu: "preserves frame (network_menu w)"
  unfolding preserves_def
proof
  fix s
  show "frame s (state_of (network_menu w s))"
  proof (induction w s rule: network_menu.induct)
    case (1 w s)
    show ?case
    proof (rule loop_step [where rd = "bind network_screen (\<lambda>_. py_input ''Enter choice: '')"
          and ch = "\<lambda>line. network_choice w (strip line)" and loop = "network_menu w"])
      show "transp frame" by (rule frame_trans)
      show "preserves frame (bind network_screen (\<lambda>_. py_input ''Enter choice: ''))"
        by (intro frame_intros frame_screens)
      show "preserves frame (network_choice w (strip line))" for line
        by (rule frame_choices(1))
      show "network_menu w s =
        (case bind network_screen (\<lambda>_. py_input ''Enter choice: '') s of
           Raise e s1 \<Rightarrow> Raise e s1
         | Return line s1 \<Rightarrow>
             (case network_choice w (strip line) s1 of
                Raise e s2 \<Rightarrow> Raise e s2
              | Return break s2 \<Rightarrow> if break then Return () s2 else network_menu w s2))"
        by (rule network_menu.simps)
      show "frame s2 (state_of (network_menu w s2))"
        if "bind network_screen (\<lambda>_. py_input ''Enter choice: '') s = Return line s1"
          and "network_choice w (strip line) s1 = Return break s2" and "\<not> break"
        for line s1 break s2
        using that by (rule "1.IH")
    qed
  qed
qed

function process_menu :: "world \<Rightarrow> console \<Rightarrow> unit result" where
  "process_menu w s =
     (case bind process_screen (\<lambda>_. py_input ''Enter choice: '') s of
        Raise e s1 \<Rightarrow> Raise e s1
      | Return line s1 \<Rightarrow>
          (case process_choice w (strip line) s1 of
             Raise e s2 \<Rightarrow> Raise e s2
           | Return break s2 \<Rightarrow> if break then Return () s2 else process_menu w s2))"
  by pat_completeness auto
termination
proof (relation "measure (\<lambda>(w, s). length (stdin s))")
  show "wf (measure (\<lambda>(w, s). length (stdin s)))" by simp
next
  fix w s line s1 break s2
  assume "bind process_screen (\<lambda>_. py_input ''Enter choice: '') s = Return line s1"
    and "process_choice w (strip line) s1 = Return break s2"
  then have "length (stdin s1) < length (stdin s)" "length (stdin s2) \<le> length (stdin s1)"
    by (auto intro: read_choice_shrinks [OF frame_screens(2) frame_stdin]
        choice_shrinks [OF frame_choices(2) frame_stdin])
  then show "((w, s2), (w, s)) \<in> measure (\<lambda>(w, s). length (stdin s))" by simp
qed

declare process_menu.simps [simp del]

lemma frame_process_menu: "preserves frame (process_menu w)"
  unfolding preserves_def
proof
  fix s
  show "frame s (state_of (process_menu w s))"
  proof (induction w s rule: process_menu.induct)
    case (1 w s)
    show ?case
    proof (rule loop_step [where rd = "bind process_screen (\<lambda>_. py_input ''Enter choice: '')"
          and ch = "\<lambda>line. process_choice w (strip line)" and loop = "process_menu w"])
      show "transp frame" by (rule frame_trans)
      show "preserves frame (bind process_screen (\<lambda>_. py_input ''Enter choice: ''))"
        by (intro frame_intros frame_screens)
      show "preserves frame (process_choice w (strip line))" for line
        by (rule frame_choices(2))
      show "process_menu w s =
        (case bind process_screen (\<lambda>_. py_input ''Enter choice: '') s of
           Raise e s1 \<Rightarrow> Raise e s1
         | Return line s1 \<Rightarrow>
             (case process_choice w (strip line) s1 of
                Raise e s2 \<Rightarrow> Raise e s2
              | Return break s2 \<Rightarrow> if break then Return () s2 else process_menu w s2))"
        by (rule process_menu.simps)
      show "frame s2 (state_of (process_menu w s2))"
        if "bind process_screen (\<lambda>_. py_input ''Enter choice: '') s = Return line s1"
          and "process_choice w (strip line) s1 = Return break s2" and "\<not> break"
        for line s1 break s2
        using that by (rule "1.IH")
    qed
  qed
qed

function log_menu :: "world \<Rightarrow> console \<Rightarrow> unit result" where
  "log_menu w s =
     (case bind log_screen (\<lambda>_. py_input ''Enter choice: '') s of
        Raise e s1 \<Rightarrow> Raise e s1
      | Return line s1 \<Rightarrow>
          (case log_choice w (strip line) s1 of
             Raise e s2 \<Rightarrow> Raise e s2
           | Return break s2 \<Rightarrow> if break then Return () s2 else log_menu w s2))"
  by pat_completeness auto
termination
proof (relation "measure (\<lambda>(w, s). length (stdin s))")
  show "wf (measure (\<lambda>(w, s). length (stdin s)))" by simp
next
  fix w s line s1 break s2
  assume "bind log_screen (\<lambda>_. py_input ''Enter choice: '') s = Return line s1"
    and "log_choice w (strip line) s1 = Return break s2"
  then have "length (stdin s1) < length (stdin s)" "length (stdin s2) \<le> length (stdin s1)"
    by (auto intro: read_choice_shrinks [OF frame_screens(3) frame_stdin]
        choice_shrinks [OF frame_choices(3) frame_stdin])
  then show "((w, s2), (w, s)) \<in> measure (\<lambda>(w, s). length (stdin s))" by simp
qed

declare log_menu.simps [simp del]

lemma frame_log_menu: "preserves frame (log_menu w)"
  unfolding preserves_def
proof
  fix s
  show "frame s (state_of (log_menu w s))"
  proof (induction w s rule: log_menu.induct)
    case (1 w s)
    show ?case
    proof (rule loop_step [where rd = "bind log_screen (\<lambda>_. py_input ''Enter choice: '')"
          and ch = "\<lambda>line. log_choice w (strip line)" and loop = "log_menu w"])
      show "transp frame" by (rule frame_trans)
      show "preserves frame (bind log_screen (\<lambda>_. py_input ''Enter choice: ''))"
        by (intro frame_intros frame_screens)
      show "preserves frame (log_choice w (strip line))" for line
        by (rule frame_choices(3))
      show "log_menu w s =
        (case bind log_screen (\<lambda>_. py_input ''Enter choice: '') s of
           Raise e s1 \<Rightarrow> Raise e s1
         | Return line s1 \<Rightarrow>
             (case log_choice w (strip line) s1 of
                Raise e s2 \<Rightarrow> Raise e s2
              | Return break s2 \<Rightarrow> if break then Return () s2 else log_menu w s2))"
        by (rule log_menu.simps)
      show "frame s2 (state_of (log_menu w s2))"
        if "bind log_screen (\<lambda>_. py_input ''Enter choice: '') s = Return line s1"
          and "log_choice w (strip line) s1 = Return break s2" and "\<not> break"
        for line s1 break s2
        using that by (rule "1.IH")
    qed
  qed
qed

function resource_menu :: "world \<Rightarrow> console \<Rightarrow> unit result" where
  "resource_menu w s =
     (case bind resource_screen (\<lambda>_. py_input ''Enter choice: '') s of
        Raise e s1 \<Rightarrow> Raise e s1
      | Return line s1 \<Rightarrow>
          (case resource_choice w (strip line) s1 of
             Raise e s2 \<Rightarrow> Raise e s2
           | Return break s2 \<Rightarrow> if break then Return () s2 else resource_menu w s2))"
  by pat_completeness auto
termination
proof (relation "measure (\<lambda>(w, s). length (stdin s))")
  show "wf (measure (\<lambda>(w, s). length (stdin s)))" by simp
next
  fix w s line s1 break s2
  assume "bind resource_screen (\<lambda>_. py_input ''Enter choice: '') s = Return line s1"
    and "resource_choice w (strip line) s1 = Return break s2"
  then have "length (stdin s1) < length (stdin s)" "length (stdin s2) \<le> length (stdin s1)"
    by (auto intro: read_choice_shrinks [OF frame_screens(4) frame_stdin]
        choice_shrinks [OF frame_choices(4) frame_stdin])
  then show "((w, s2), (w, s)) \<in> measure (\<lambda>(w, s). length (stdin s))" by simp
qed

declare resource_menu.simps [simp del]

lemma frame_resource_menu: "preserves frame (resource_menu w)"
  unfolding preserves_def
proof
  fix s
  show "frame s (state_of (resource_menu w s))"
  proof (induction w s rule: resource_menu.induct)
    case (1 w s)
    show ?case
    proof (rule loop_step [where rd = "bind resource_screen (\<lambda>_. py_input ''Enter choice: '')"
          and ch = "\<lambda>line. resource_choice w (strip line)" and loop = "resource_menu w"])
      show "transp frame" by (rule frame_trans)
      show "preserves frame (bind resource_screen (\<lambda>_. py_input ''Enter choice: ''))"
        by (intro frame_intros frame_screens)
      show "preserves frame (resource_choice w (strip line))" for line
        by (rule frame_choices(4))
      show "resource_menu w s =
        (case bind resource_screen (\<lambda>_. py_input ''Enter choice: '') s of
           Raise e s1 \<Rightarrow> Raise e s1
         | Return line s1 \<Rightarrow>
             (case resource_choice w (strip line) s1 of
                Raise e s2 \<Rightarrow> Raise e s2
              | Return break s2 \<Rightarrow> if break then Return () s2 else resource_menu w s2))"
        by (rule resource_menu.simps)
      show "frame s2 (state_of (resource_menu w s2))"
        if "bind resource_screen (\<lambda>_. py_input ''Enter choice: '') s = Return line s1"
          and "resource_choice w (strip line) s1 = Return break s2" and "\<not> break"
        for line s1 break s2
        using that by (rule "1.IH")
    qed
  qed
qed

function k8s_menu :: "world \<Rightarrow> console \<Rightarrow> unit result" where
  "k8s_menu w s =
     (case bind k8s_screen (\<lambda>_. py_input ''Enter choice: '') s of
        Raise e s1 \<Rightarrow> Raise e s1
      | Return line s1 \<Rightarrow>
          (case k8s_choice w (strip line) s1 of
             Raise e s2 \<Rightarrow> Raise e s2
           | Return break s2 \<Rightarrow> if break then Return () s2 else k8s_menu w s2))"
  by pat_completeness auto
termination
proof (relation "measure (\<lambda>(w, s). length (stdin s))")
  show "wf (measure (\<lambda>(w, s). length (stdin s)))" by simp
next
  fix w s line s1 break s2
  assume "bind k8s_screen (\<lambda>_. py_input ''Enter choice: '') s = Return line s1"
    and "k8s_choice w (strip line) s1 = Return break s2"
  then have "length (stdin s1) < length (stdin s)" "length (stdin s2) \<le> length (stdin s1)"
    by (auto intro: read_choice_shrinks [OF frame_ns_k8s_screen frame_ns_stdin]
        choice_shrinks [OF frame_ns_k8s_choice frame_ns_stdin])
  then show "((w, s2), (w, s)) \<in> measure (\<lambda>(w, s). length (stdin s))" by simp
qed

declare k8s_menu.simps [simp del]

lemma frame_ns_k8s_menu: "preserves frame_ns (k8s_menu w)"
  unfolding preserves_def
proof
  fix s
  show "frame_ns s (state_of (k8s_menu w s))"
  proof (induction w s rule: k8s_menu.induct)
    case (1 w s)
    show ?case
    proof (rule loop_step [where rd = "bind k8s_screen (\<lambda>_. py_input ''Enter choice: '')"
          and ch = "\<lambda>line. k8s_choice w (strip line)" and loop = "k8s_menu w"])
      show "transp frame_ns" by (rule frame_ns_trans)
      show "preserves frame_ns (bind k8s_screen (\<lambda>_. py_input ''Enter choice: ''))"
        by (intro preserves_bind [OF frame_ns_trans] frame_ns_k8s_screen preserves_frame_ns [OF frame_py_input])
      show "preserves frame_ns (k8s_choice w (strip line))" for line
        by (rule frame_ns_k8s_choice)
      show "k8s_menu w s =
        (case bind k8s_screen (\<lambda>_. py_input ''Enter choice: '') s of
           Raise e s1 \<Rightarrow> Raise e s1
         | Return line s1 \<Rightarrow>
             (case k8s_choice w (strip line) s1 of
                Raise e s2 \<Rightarrow> Raise e s2
              | Return break s2 \<Rightarrow> if break then Return () s2 else k8s_menu w s2))"
        by (rule k8s_menu.simps)
      show "frame_ns s2 (state_of (k8s_menu w s2))"
        if "bind k8s_screen (\<lambda>_. py_input ''Enter choice: '') s = Return line s1"
          and "k8s_choice w (strip line) s1 = Return break s2" and "\<not> break"
        for line s1 break s2
        using that by (rule "1.IH")
    qed
  qed
qed

section \<open>Main menu\<close>

definition get_remote_host :: "console \<Rightarrow> string option result" where
  \<comment> \<open>Reading \<^verbatim>\<open>self.remote_host\<close>.\<close>
  "get_remote_host s = Return (remote_host s) s"

definition main_screen :: "console \<Rightarrow> unit result" where
  "main_screen =
     bind (print_header ''Debug Toolkit'') (\<lambda>_.
     bind get_remote_host (\<lambda>host.
     do_all [py_print (''  Target: '' @
                       (case host of
                          None \<Rightarrow> ''localhost''
                        | Some h \<Rightarrow> if h = [] then ''localhost'' else h)),
             py_print [],
             py_print ''  1) Network Debugging'',
             py_print ''  2) Process Debugging'',
             py_print ''  3) Log Analysis'',
             py_print ''  4) Resource Analysis'',
             py_print ''  5) Kubernetes Debugging'',
             py_print ''  q) Quit'',
             py_print []]))"

definition main_choice :: "world \<Rightarrow> string \<Rightarrow> console \<Rightarrow> bool result" where
  \<comment> \<open>The \<^verbatim>\<open>if\<close>/\<^verbatim>\<open>elif\<close> chain of \<^verbatim>\<open>main_menu\<close>; \<open>True\<close> is \<^verbatim>\<open>break\<close>.\<close>
  "main_choice w choice =
     (if choice = ''1'' then continue (network_menu w)
      else if choice = ''2'' then continue (process_menu w)
      else if choice = ''3'' then continue (log_menu w)
      else if choice = ''4'' then continue (resource_menu w)
      else if choice = ''5'' then continue (k8s_menu w)
      else if lower choice = ''q'' then bind (py_print ''\<newline>Goodbye!'') (\<lambda>_. Return True)
      else Return False)"

lemma frame_ns_main_screen: "preserves frame_ns main_screen"
proof -
  have "preserves frame get_remote_host"
    by (simp add: preserves_def get_remote_host_def frame_def)
  then have "preserves frame main_screen"
    unfolding main_screen_def
    by (intro frame_intros frame_print_header; simp add: frame_intros)
  then show ?thesis by (rule preserves_frame_ns)
qed

lemma frame_ns_main_choice: "preserves frame_ns (main_choice w c)"
  unfolding main_choice_def
  by (intro preserves_if preserves_continue [OF frame_ns_refl frame_ns_trans]
      preserves_bind [OF frame_ns_trans] preserves_Return [OF frame_ns_refl]
      preserves_frame_ns [OF frame_py_print]
      preserves_frame_ns [OF frame_network_menu] preserves_frame_ns [OF frame_process_menu]
      preserves_frame_ns [OF frame_log_menu] preserves_frame_ns [OF frame_resource_menu]
      frame_ns_k8s_menu)

function main_menu :: "world \<Rightarrow> console \<Rightarrow> unit result" where
  "main_menu w s =
     (case bind main_screen (\<lambda>_. py_input ''Enter choice: '') s of
        Raise e s1 \<Rightarrow> Raise e s1
      | Return line s1 \<Rightarrow>
          (case main_choice w (strip line) s1 of
             Raise e s2 \<Rightarrow> Raise e s2
           | Return break s2 \<Rightarrow> if break then Return () s2 else main_menu w s2))"
  by pat_completeness auto
termination
proof (relation "measure (\<lambda>(w, s). length (stdin s))")
  show "wf (measure (\<lambda>(w, s). length (stdin s)))" by simp
next
  fix w s line s1 break s2
  assume "bind main_screen (\<lambda>_. py_input ''Enter choice: '') s = Return line s1"
    and "main_choice w (strip line) s1 = Return break s2"
  then have "length (stdin s1) < length (stdin s)" "length (stdin s2) \<le> length (stdin s1)"
    by (auto intro: read_choice_shrinks [OF frame_ns_main_screen frame_ns_stdin]
        choice_shrinks [OF frame_ns_main_choice frame_ns_stdin])
  then show "((w, s2), (w, s)) \<in> measure (\<lambda>(w, s). length (stdin s))" by simp
qed

declare main_menu.simps [simp del]


text \<open>
  \<^verbatim>\<open>main\<close> also replaces the handler of \<^verbatim>\<open>SIGINT\<close> by one that prints a line and returns.
  Signals are not part of this model. With that handler in place an interrupt of the
  operator raises no \<^verbatim>\<open>KeyboardInterrupt\<close> in the console and shows only as the end of
  the interactive child it reaches; the worlds in which \<^verbatim>\<open>subprocess.run\<close> raises
  \<^verbatim>\<open>KeyboardInterrupt\<close> describe the two gateway functions called without it.
\<close>

definition main :: "world \<Rightarrow> string option \<Rightarrow> string option \<Rightarrow> string list \<Rightarrow> unit result" where
  \<comment> \<open>\<^verbatim>\<open>main()\<close>, given the values of the options \<^verbatim>\<open>--remote\<close> and \<^verbatim>\<open>--namespace\<close>
      (\<open>None\<close>: not on the command line) and the lines the operator is going to type.
      \<^verbatim>\<open>argparse\<close> gives \<^verbatim>\<open>args.namespace\<close> the default \<^verbatim>\<open>"default"\<close>.\<close>
  "main w remote ns keys =
     main_menu w (DebugToolkit remote (case ns of None \<Rightarrow> ''default'' | Some n \<Rightarrow> n) keys)"

definition exit_status :: "unit result \<Rightarrow> int" where
  \<comment> \<open>The exit status of the interpreter after \<^verbatim>\<open>if __name__ == "__main__": main()\<close>:
      0 when \<^verbatim>\<open>main\<close> returns, 1 after an uncaught exception, 130 after an uncaught
      \<^verbatim>\<open>KeyboardInterrupt\<close>.\<close>
  "exit_status r =
     (case r of
        Return u s \<Rightarrow> 0
      | Raise KeyboardInterrupt s \<Rightarrow> 130
      | Raise e s \<Rightarrow> 1)"

section \<open>Notions for stating the properties\<close>

fun outcome :: "'a result \<Rightarrow> py_exception + 'a" where
  \<comment> \<open>What the caller of a statement gets: the value returned, or the exception.\<close>
  "outcome (Return a s) = Inr a"
| "outcome (Raise e s) = Inl e"

definition rendering :: "(console \<Rightarrow> unit result) \<Rightarrow> console \<Rightarrow> tty_event list" where
  \<comment> \<open>What a screen writes to the terminal when it is drawn in the given state.\<close>
  "rendering screen s = drop (length (tty s)) (tty (state_of (screen s)))"

fun command_of :: "spawn \<Rightarrow> string" where
  "command_of (Spawn cmd capture timeout) = cmd"

definition new_commands :: "console \<Rightarrow> console \<Rightarrow> string list" where
  \<comment> \<open>The command lines handed to \<^verbatim>\<open>subprocess.run\<close> between two states.\<close>
  "new_commands s s' = drop (length (spawned s)) (map command_of (spawned s'))"

definition new_events :: "console \<Rightarrow> console \<Rightarrow> tty_event list" where
  \<comment> \<open>What was written to the terminal between two states.\<close>
  "new_events s s' = drop (length (tty s)) (tty s')"

definition new_results :: "console \<Rightarrow> console \<Rightarrow> (int \<times> string) list" where
  \<comment> \<open>The pairs \<^verbatim>\<open>run_command\<close> returned between two states.\<close>
  "new_results s s' = drop (length (returned s)) (returned s')"

definition passes_namespace :: "string \<Rightarrow> string \<Rightarrow> bool" where
  \<comment> \<open>The command line holds the flag \<^verbatim>\<open>-n\<close> with this namespace as its argument.\<close>
  "passes_namespace ns cmd = sublist ('' -n '' @ ns @ '' '') cmd"

definition flagged :: "string \<Rightarrow> console \<Rightarrow> console \<Rightarrow> bool" where
  \<comment> \<open>Starting in namespace \<open>ns\<close>, the namespace has stayed and every command line
      handed to \<^verbatim>\<open>subprocess.run\<close> since passes it.\<close>
  "flagged ns s s' \<longleftrightarrow>
     (namespace s = ns \<longrightarrow>
        namespace s' = ns \<and> prefix (spawned s) (spawned s') \<and>
        list_all (passes_namespace ns) (new_commands s s'))"

definition verbatim :: "string \<Rightarrow> string" where
  \<comment> \<open>\<^verbatim>\<open>print(output)\<close>\<close>
  "verbatim = (\<lambda>output. output)"

definition or_placeholder :: "string \<Rightarrow> string \<Rightarrow> string" where
  \<comment> \<open>\<^verbatim>\<open>print(output if output else text)\<close>\<close>
  "or_placeholder text = (\<lambda>output. if output \<noteq> [] then output else text)"

definition renders :: "(string \<Rightarrow> string) list \<Rightarrow> console \<Rightarrow> console \<Rightarrow> bool" where
  \<comment> \<open>Between the two states the terminal and the log of results have only grown,
      \<^verbatim>\<open>run_command\<close> has returned at most as many results as the list is long, and the
      output of the \<open>i\<close>-th of them has been printed the way the \<open>i\<close>-th entry of the
      list says.\<close>
  "renders rs s s' \<longleftrightarrow>
     prefix (tty s) (tty s') \<and> prefix (returned s) (returned s') \<and>
     length (new_results s s') \<le> length rs \<and>
     list_all (\<lambda>p. Print (fst p (snd (snd p))) \<in> set (new_events s s'))
       (zip rs (new_results s s'))"

definition silent :: "(console \<Rightarrow> 'a result) \<Rightarrow> bool" where
  \<comment> \<open>A statement that may write to the terminal and does not call \<^verbatim>\<open>run_command\<close>.\<close>
  "silent m \<longleftrightarrow>
     (\<forall>s. prefix (tty s) (tty (state_of (m s))) \<and> returned (state_of (m s)) = returned s)"

definition owes :: "string \<Rightarrow> (string \<Rightarrow> string) list \<Rightarrow> (console \<Rightarrow> 'a result) \<Rightarrow> bool" where
  \<comment> \<open>A block of statements that prints the given text, and renders the results of its
      own captured executions.\<close>
  "owes text rs m \<longleftrightarrow>
     (\<forall>s. renders rs s (state_of (m s)) \<and> Print text \<in> set (new_events s (state_of (m s))))"

definition prints_only :: "(console \<Rightarrow> unit result) \<Rightarrow> bool" where
  \<comment> \<open>A statement that returns and has done nothing but write to the terminal.\<close>
  "prints_only m \<longleftrightarrow> (\<forall>s. \<exists>t. m s = Return () (s\<lparr>tty := tty s @ t\<rparr>))"

section \<open>Sample worlds\<close>

definition silent_failure :: world where
  \<comment> \<open>Every command behaves like \<^verbatim>\<open>false\<close>: exit status 1 and no output.\<close>
  "silent_failure n cmd = Runs (Some 0) 1 []"

definition not_found :: world where
  \<comment> \<open>The shell finds no such binary: status 127 and a message on standard error.\<close>
  "not_found n cmd = Runs (Some 0) 127 [(Stderr, ''/bin/sh: 1: nosuchbinary: not found'')]"

definition fork_fails :: world where
  \<comment> \<open>The shell itself cannot be started.\<close>
  "fork_fails n cmd = Fails (PyException ''[Errno 11] Resource temporarily unavailable'')"

definition interrupted :: world where
  \<comment> \<open>The call of \<^verbatim>\<open>subprocess.run\<close> is interrupted from the keyboard.\<close>
  "interrupted n cmd = Fails KeyboardInterrupt"

definition sleeper :: world where
  \<comment> \<open>Every command runs for 75 time units before it prints and exits.\<close>
  "sleeper n cmd = Runs (Some 75) 0 [(Stdout, ''done'')]"

definition hangs :: world where
  \<comment> \<open>No command ever ends by itself.\<close>
  "hangs n cmd = Runs None 0 []"

definition chatty :: world where
  \<comment> \<open>A child that writes to standard output, then to standard error, then to
      standard output again.\<close>
  "chatty n cmd = Runs (Some 1) 0 [(Stdout, ''a''), (Stderr, ''b''), (Stdout, ''c'')]"

definition as_produced :: "(channel \<times> string) list \<Rightarrow> string" where
  \<comment> \<open>The one stream of the specification: both channels, interleaved as the child
      wrote them.\<close>
  "as_produced ws = concat (map snd ws)"

section \<open>Properties of the execution gateway\<close>

lemma run_command_Runs:
  assumes "w (length (spawned s)) (captured_command cmd host) = Runs d rc ws"
  shows "run_command w cmd host s =
           give (if outlives d 60 then (1, ''Command timed out'')
                 else (rc, written Stdout ws @ written Stderr ws))
             (s\<lparr>spawned := spawned s @ [Spawn (captured_command cmd host) True (Some 60)]\<rparr>)"
  using assms by (simp add: run_command_def subprocess_run_capture_def)

lemma run_command_Fails:
  assumes "w (length (spawned s)) (captured_command cmd host) = Fails e"
  shows "run_command w cmd host s =
           (case e of
              TimeoutExpired \<Rightarrow> give (1, ''Command timed out'')
            | PyException msg \<Rightarrow> give (1, msg)
            | KeyboardInterrupt \<Rightarrow> Raise KeyboardInterrupt)
             (s\<lparr>spawned := spawned s @ [Spawn (captured_command cmd host) True (Some 60)]\<rparr>)"
  using assms by (simp add: run_command_def subprocess_run_capture_def split: py_exception.splits)

text \<open>
  C1, as stated, fails: a child that exits with status 1 and writes nothing (the
  command \<^verbatim>\<open>false\<close>) is folded into exit code 1 with an empty combined output.
\<close>

theorem run_command_empty_diagnostic:
  "run_command silent_failure ''false'' None (DebugToolkit None ''default'' []) =
     Return (1, [])
       ((DebugToolkit None ''default'' [])
          \<lparr>spawned := [Spawn ''false'' True (Some 60)], returned := [(1, [])]\<rparr>)"
  by (simp add: run_command_def subprocess_run_capture_def captured_command_def give_def
      silent_failure_def outlives_def written_def DebugToolkit_def)

text \<open>
  C1, amended: \<open>run_command\<close> raises only when \<^verbatim>\<open>subprocess.run\<close> raises an exception
  outside the \<^verbatim>\<open>Exception\<close> hierarchy. In every other case it returns a pair: exit code 1
  and the text \<^verbatim>\<open>Command timed out\<close> when the child outlives the timeout, exit code 1 and
  the exception's message when \<^verbatim>\<open>subprocess.run\<close> raises another exception, and the
  child's own exit status and its standard output followed by its standard error when
  the child ends in time. So the exit code is 0 only when the child ended within the
  timeout with status 0, and the output of a timeout is never empty; the output of a
  failing child or the message of an exception may be empty.
\<close>

theorem run_command_folds_failures:
  "outcome (run_command w cmd host s) =
     (case w (length (spawned s)) (captured_command cmd host) of
        Fails KeyboardInterrupt \<Rightarrow> Inl KeyboardInterrupt
      | Fails TimeoutExpired \<Rightarrow> Inr (1, ''Command timed out'')
      | Fails (PyException msg) \<Rightarrow> Inr (1, msg)
      | Runs d rc ws \<Rightarrow>
          Inr (if outlives d 60 then (1, ''Command timed out'')
               else (rc, written Stdout ws @ written Stderr ws))) \<and>
   (w (length (spawned s)) (captured_command cmd host) \<noteq> Fails KeyboardInterrupt \<longrightarrow>
      (\<exists>code out s'.
         run_command w cmd host s = Return (code, out) s' \<and>
         (code = 0 \<longrightarrow>
            (\<exists>d ws. w (length (spawned s)) (captured_command cmd host) = Runs d 0 ws \<and>
                     \<not> outlives d 60)) \<and>
         (out = [] \<longrightarrow>
            w (length (spawned s)) (captured_command cmd host) \<noteq> Fails TimeoutExpired \<and>
            (\<forall>d rc ws. w (length (spawned s)) (captured_command cmd host) = Runs d rc ws
               \<longrightarrow> \<not> outlives d 60))))"
proof (cases "w (length (spawned s)) (captured_command cmd host)")
  case (Fails e)
  then show ?thesis
    by (cases e) (simp_all add: run_command_Fails give_def)
next
  case (Runs d rc ws)
  then show ?thesis
    by (simp add: run_command_Runs give_def)
qed

theorem run_command_folds_failures_witness:
  "(\<exists>code out s'.
      run_command not_found ''nosuchbinary'' None (DebugToolkit None ''default'' []) =
        Return (code, out) s' \<and> code \<noteq> 0) \<and>
   outcome (run_command not_found ''nosuchbinary'' None (DebugToolkit None ''default'' [])) =
     Inr (127, ''/bin/sh: 1: nosuchbinary: not found'') \<and>
   outcome (run_command sleeper ''sleep 75'' None (DebugToolkit None ''default'' [])) =
     Inr (1, ''Command timed out'') \<and>
   outcome (run_command fork_fails ''ps'' (Some ''host1'') (DebugToolkit (Some ''host1'') ''default'' [])) =
     Inr (1, ''[Errno 11] Resource temporarily unavailable'') \<and>
   outcome (run_command interrupted ''ps'' None (DebugToolkit None ''default'' [])) =
     Inl KeyboardInterrupt"
proof -
  have h: "not_found (length (spawned (DebugToolkit None ''default'' [])))
          (captured_command ''nosuchbinary'' None) \<noteq> Fails KeyboardInterrupt"
    by (simp add: not_found_def)
  from run_command_folds_failures
      [where w = not_found and s = "DebugToolkit None ''default'' []"
         and cmd = "''nosuchbinary''" and host = None] h
  have a: "(\<exists>code out s'.
      run_command not_found ''nosuchbinary'' None (DebugToolkit None ''default'' []) =
        Return (code, out) s' \<and> code \<noteq> 0)"
    "outcome (run_command not_found ''nosuchbinary'' None (DebugToolkit None ''default'' [])) =
       Inr (127, ''/bin/sh: 1: nosuchbinary: not found'')"
    by (auto simp: not_found_def outlives_def written_def)
  from run_command_folds_failures
      [where w = sleeper and s = "DebugToolkit None ''default'' []"
         and cmd = "''sleep 75''" and host = None]
  have b: "outcome (run_command sleeper ''sleep 75'' None (DebugToolkit None ''default'' [])) =
     Inr (1, ''Command timed out'')"
    by (simp add: sleeper_def outlives_def)
  from run_command_folds_failures
      [where w = fork_fails and s = "DebugToolkit (Some ''host1'') ''default'' []"
         and cmd = "''ps''" and host = "Some ''host1''"]
  have c: "outcome (run_command fork_fails ''ps'' (Some ''host1'')
        (DebugToolkit (Some ''host1'') ''default'' [])) =
     Inr (1, ''[Errno 11] Resource temporarily unavailable'')"
    by (simp add: fork_fails_def)
  from run_command_folds_failures
      [where w = interrupted and s = "DebugToolkit None ''default'' []"
         and cmd = "''ps''" and host = None]
  have d: "outcome (run_command interrupted ''ps'' None (DebugToolkit None ''default'' [])) =
     Inl KeyboardInterrupt"
    by (simp add: interrupted_def)
  from a b c d show ?thesis by blast
qed

text \<open>
  C2: the whole invocation runs under a timeout of 60 time units. A child that is still
  running after 60 time units (one that never ends included) makes \<open>run_command\<close>
  return exit code 1 with the text \<^verbatim>\<open>Command timed out\<close>; a child that ends within 60
  time units is reported with its own status and output.
\<close>

theorem run_command_timeout_60:
  assumes "w (length (spawned s)) (captured_command cmd host) = Runs d rc ws"
  shows "(outlives d 60 \<longrightarrow>
            (\<exists>code s'. run_command w cmd host s = Return (code, ''Command timed out'') s' \<and>
               code \<noteq> 0 \<and>
               spawned s' = spawned s @ [Spawn (captured_command cmd host) True (Some 60)])) \<and>
         (\<not> outlives d 60 \<longrightarrow>
            (\<exists>s'. run_command w cmd host s =
               Return (rc, written Stdout ws @ written Stderr ws) s'))"
  using assms by (simp add: run_command_Runs give_def)

theorem run_command_timeout_60_witness:
  "(\<exists>code s'. run_command sleeper ''sleep 75; echo done'' None (DebugToolkit None ''default'' []) =
      Return (code, ''Command timed out'') s' \<and> code \<noteq> 0) \<and>
   (\<exists>code s'. run_command hangs ''cat'' (Some ''host1'') (DebugToolkit (Some ''host1'') ''default'' []) =
      Return (code, ''Command timed out'') s' \<and> code \<noteq> 0) \<and>
   (\<exists>s'. run_command chatty ''make'' None (DebugToolkit None ''default'' []) =
      Return (0, ''acb'') s') \<and>
   outlives (Some 75) 60 \<and> outlives None 60 \<and> \<not> outlives (Some 1) 60 \<and> \<not> outlives (Some 60) 60"
proof -
  have a: "sleeper (length (spawned (DebugToolkit None ''default'' [])))
             (captured_command ''sleep 75; echo done'' None) = Runs (Some 75) 0 [(Stdout, ''done'')]"
    by (simp add: sleeper_def)
  have b: "hangs (length (spawned (DebugToolkit (Some ''host1'') ''default'' [])))
             (captured_command ''cat'' (Some ''host1'')) = Runs None 0 []"
    by (simp add: hangs_def)
  have c: "chatty (length (spawned (DebugToolkit None ''default'' [])))
             (captured_command ''make'' None) =
           Runs (Some 1) 0 [(Stdout, ''a''), (Stderr, ''b''), (Stdout, ''c'')]"
    by (simp add: chatty_def)
  have t: "outlives (Some 75) 60" "outlives None 60" "\<not> outlives (Some 1) 60"
    "\<not> outlives (Some 60) 60"
    by (simp_all add: outlives_def)
  have o: "written Stdout [(Stdout, ''a''), (Stderr, ''b''), (Stdout, ''c'')] @
      written Stderr [(Stdout, ''a''), (Stderr, ''b''), (Stdout, ''c'')] = ''acb''"
    by (simp add: written_def)
  from run_command_timeout_60
      [where w = sleeper and s = "DebugToolkit None ''default'' []"
         and cmd = "''sleep 75; echo done''" and host = None, OF a]
    run_command_timeout_60
      [where w = hangs and s = "DebugToolkit (Some ''host1'') ''default'' []"
         and cmd = "''cat''" and host = "Some ''host1''", OF b]
    run_command_timeout_60
      [where w = chatty and s = "DebugToolkit None ''default'' []"
         and cmd = "''make''" and host = None, OF c]
    t o
  show ?thesis
    by auto
qed

text \<open>
  C3: a command is wrapped exactly when a remote host is set (\<^verbatim>\<open>None\<close> and the empty
  string count as not set, as in \<^verbatim>\<open>if remote_host:\<close>). The command line handed to
  \<^verbatim>\<open>subprocess.run\<close> is then, in captured mode, an \<^verbatim>\<open>ssh\<close> call with
  \<^verbatim>\<open>ConnectTimeout=10\<close> and \<^verbatim>\<open>BatchMode=yes\<close> addressed to the host, and in interactive
  mode an \<^verbatim>\<open>ssh -t\<close> call addressed to the host; with no host it is the command itself.
\<close>

theorem remote_wrapping:
  "spawned (state_of (run_command w cmd host s)) =
     spawned s @
       [Spawn (case host of
                 None \<Rightarrow> cmd
               | Some h \<Rightarrow>
                   if h = [] then cmd
                   else ''ssh -o ConnectTimeout=10 -o BatchMode=yes '' @ h @ '' '' @ squote cmd)
          True (Some 60)] \<and>
   spawned (state_of (run_interactive w cmd host s)) =
     spawned s @
       [Spawn (case host of
                 None \<Rightarrow> cmd
               | Some h \<Rightarrow> if h = [] then cmd else ''ssh -t '' @ h @ '' '' @ squote cmd)
          False None]"
proof
  let ?c = "captured_command cmd host"
  show "spawned (state_of (run_command w cmd host s)) =
     spawned s @
       [Spawn (case host of
                 None \<Rightarrow> cmd
               | Some h \<Rightarrow>
                   if h = [] then cmd
                   else ''ssh -o ConnectTimeout=10 -o BatchMode=yes '' @ h @ '' '' @ squote cmd)
          True (Some 60)]"
  proof (cases "w (length (spawned s)) ?c")
    case (Fails e)
    then show ?thesis
      by (cases e) (simp_all add: run_command_Fails captured_command_def give_def)
  next
    case (Runs d rc ws)
    then show ?thesis
      by (simp add: run_command_Runs captured_command_def give_def)
  qed
next
  let ?c = "interactive_command cmd host"
  show "spawned (state_of (run_interactive w cmd host s)) =
     spawned s @
       [Spawn (case host of
                 None \<Rightarrow> cmd
               | Some h \<Rightarrow> if h = [] then cmd else ''ssh -t '' @ h @ '' '' @ squote cmd)
          False None]"
  proof (cases "w (length (spawned s)) ?c")
    case (Fails e)
    then show ?thesis
      by (cases e)
        (simp_all add: run_interactive_def subprocess_run_inherit_def interactive_command_def)
  next
    case (Runs d rc ws)
    then show ?thesis
      by (simp add: run_interactive_def subprocess_run_inherit_def interactive_command_def)
  qed
qed

text \<open>
  C4, as stated, fails: the two channels are captured apart and the result is all of
  standard output followed by all of standard error. A child that writes \<^verbatim>\<open>a\<close> to
  standard output, \<^verbatim>\<open>b\<close> to standard error and \<^verbatim>\<open>c\<close> to standard output produced the
  stream \<^verbatim>\<open>abc\<close>, and \<open>run_command\<close> returns \<^verbatim>\<open>acb\<close>.
\<close>

theorem combined_output_not_interleaved:
  "run_command chatty ''make'' None (DebugToolkit None ''default'' []) =
     Return (0, ''acb'')
       ((DebugToolkit None ''default'' [])
          \<lparr>spawned := [Spawn ''make'' True (Some 60)], returned := [(0, ''acb'')]\<rparr>) \<and>
   as_produced [(Stdout, ''a''), (Stderr, ''b''), (Stdout, ''c'')] = ''abc'' \<and>
   chatty 0 ''make'' = Runs (Some 1) 0 [(Stdout, ''a''), (Stderr, ''b''), (Stdout, ''c'')]"
  by (simp add: run_command_def subprocess_run_capture_def captured_command_def give_def
      chatty_def outlives_def written_def DebugToolkit_def as_produced_def)

lemma written_only:
  "list_all (\<lambda>p. fst p = c) ws \<Longrightarrow> written c ws = as_produced ws"
  by (induction ws) (simp_all add: written_def as_produced_def)

lemma written_other:
  "list_all (\<lambda>p. fst p = c) ws \<Longrightarrow> c' \<noteq> c \<Longrightarrow> written c' ws = []"
  by (induction ws) (auto simp: written_def)

text \<open>
  C4, amended: the combined output of a captured execution that ends within the timeout
  is everything the child wrote to standard output, in the order written, followed by
  everything it wrote to standard error, in the order written. It is the stream as the
  child produced it when the child used one channel only.
\<close>

theorem combined_output_stdout_then_stderr:
  assumes "w (length (spawned s)) (captured_command cmd host) = Runs d rc ws"
    and "\<not> outlives d 60"
  shows "(\<exists>s'. run_command w cmd host s =
            Return (rc, written Stdout ws @ written Stderr ws) s') \<and>
         (list_all (\<lambda>p. fst p = Stdout) ws \<or> list_all (\<lambda>p. fst p = Stderr) ws \<longrightarrow>
            (\<exists>s'. run_command w cmd host s = Return (rc, as_produced ws) s'))"
proof -
  have r: "\<exists>s'. run_command w cmd host s =
      Return (rc, written Stdout ws @ written Stderr ws) s'"
    using assms by (simp add: run_command_Runs give_def)
  have "written Stdout ws @ written Stderr ws = as_produced ws"
    if "list_all (\<lambda>p. fst p = Stdout) ws \<or> list_all (\<lambda>p. fst p = Stderr) ws"
    using that
    by (auto simp: written_only written_other [where c = Stdout and c' = Stderr]
        written_other [where c = Stderr and c' = Stdout])
  with r show ?thesis by auto
qed

theorem combined_output_stdout_then_stderr_witness:
  "(\<exists>s'. run_command chatty ''make'' None (DebugToolkit None ''default'' []) =
      Return (0, written Stdout [(Stdout, ''a''), (Stderr, ''b''), (Stdout, ''c'')] @
                 written Stderr [(Stdout, ''a''), (Stderr, ''b''), (Stdout, ''c'')]) s') \<and>
   (\<exists>s'. run_command not_found ''nosuchbinary'' None (DebugToolkit None ''default'' []) =
      Return (127, as_produced [(Stderr, ''/bin/sh: 1: nosuchbinary: not found'')]) s')"
proof -
  have a: "chatty (length (spawned (DebugToolkit None ''default'' [])))
             (captured_command ''make'' None) =
           Runs (Some 1) 0 [(Stdout, ''a''), (Stderr, ''b''), (Stdout, ''c'')]"
    by (simp add: chatty_def)
  have b: "not_found (length (spawned (DebugToolkit None ''default'' [])))
             (captured_command ''nosuchbinary'' None) =
           Runs (Some 0) 127 [(Stderr, ''/bin/sh: 1: nosuchbinary: not found'')]"
    by (simp add: not_found_def)
  have t: "\<not> outlives (Some 1) 60" "\<not> outlives (Some 0) 60"
    by (simp_all add: outlives_def)
  from combined_output_stdout_then_stderr
      [where w = chatty and s = "DebugToolkit None ''default'' []"
         and cmd = "''make''" and host = None, OF a t(1)]
    combined_output_stdout_then_stderr
      [where w = not_found and s = "DebugToolkit None ''default'' []"
         and cmd = "''nosuchbinary''" and host = None, OF b t(2)]
  show ?thesis
    by simp
qed

text \<open>
  C10, as stated, fails: a non-zero exit status of the child is returned as it is. The
  shell that finds no such binary gives exit code 127, and a timeout of the same command
  gives exit code 1: the two failures differ by their exit code.
\<close>

theorem timeout_differs_from_exit_status:
  "run_command sleeper ''nosuchbinary'' None (DebugToolkit None ''default'' []) =
     Return (1, ''Command timed out'')
       ((DebugToolkit None ''default'' [])
          \<lparr>spawned := [Spawn ''nosuchbinary'' True (Some 60)],
            returned := [(1, ''Command timed out'')]\<rparr>) \<and>
   run_command not_found ''nosuchbinary'' None (DebugToolkit None ''default'' []) =
     Return (127, ''/bin/sh: 1: nosuchbinary: not found'')
       ((DebugToolkit None ''default'' [])
          \<lparr>spawned := [Spawn ''nosuchbinary'' True (Some 60)],
            returned := [(127, ''/bin/sh: 1: nosuchbinary: not found'')]\<rparr>)"
  by (simp add: run_command_def subprocess_run_capture_def captured_command_def give_def
      sleeper_def not_found_def outlives_def written_def DebugToolkit_def)

text \<open>
  C10, amended: a captured execution that times out returns exactly exit code 1 and the
  text \<^verbatim>\<open>Command timed out\<close>; a call of \<^verbatim>\<open>subprocess.run\<close> that raises another exception
  returns exit code 1 and the exception's message, so these two results always have the
  same exit code and are the same result exactly when the message is that text. A child
  that ends in time is returned with its own exit status and output: its exit code
  differs from that of a timeout unless its status is 1, and its result is the result of
  a timeout exactly when its status is 1 and its output is that text.
\<close>

theorem timeout_and_exception_exit_code:
  assumes "w1 (length (spawned s)) (captured_command cmd host) = Runs d rc ws"
    and "outlives d 60"
    and "w2 (length (spawned s)) (captured_command cmd host) = Fails (PyException msg)"
    and "w3 (length (spawned s)) (captured_command cmd host) = Runs d' rc' ws'"
    and "\<not> outlives d' 60"
  shows "outcome (run_command w1 cmd host s) = Inr (1, ''Command timed out'') \<and>
         outcome (run_command w2 cmd host s) = Inr (1, msg) \<and>
         (run_command w1 cmd host s = run_command w2 cmd host s \<longleftrightarrow>
            msg = ''Command timed out'') \<and>
         outcome (run_command w3 cmd host s) = Inr (rc', written Stdout ws' @ written Stderr ws') \<and>
         (run_command w3 cmd host s = run_command w1 cmd host s \<longleftrightarrow>
            rc' = 1 \<and> written Stdout ws' @ written Stderr ws' = ''Command timed out'')"
  using assms by (auto simp: run_command_Runs run_command_Fails give_def)

theorem timeout_and_exception_exit_code_witness:
  "outcome (run_command sleeper ''ps aux'' None (DebugToolkit None ''default'' [])) =
     Inr (1, ''Command timed out'') \<and>
   outcome (run_command fork_fails ''ps aux'' None (DebugToolkit None ''default'' [])) =
     Inr (1, ''[Errno 11] Resource temporarily unavailable'') \<and>
   outcome (run_command not_found ''ps aux'' None (DebugToolkit None ''default'' [])) =
     Inr (127, ''/bin/sh: 1: nosuchbinary: not found'') \<and>
   run_command sleeper ''ps aux'' None (DebugToolkit None ''default'' []) \<noteq>
     run_command fork_fails ''ps aux'' None (DebugToolkit None ''default'' []) \<and>
   run_command not_found ''ps aux'' None (DebugToolkit None ''default'' []) \<noteq>
     run_command sleeper ''ps aux'' None (DebugToolkit None ''default'' [])"
proof -
  have a: "sleeper (length (spawned (DebugToolkit None ''default'' [])))
             (captured_command ''ps aux'' None) = Runs (Some 75) 0 [(Stdout, ''done'')]"
    by (simp add: sleeper_def)
  have b: "outlives (Some 75) 60"
    by (simp add: outlives_def)
  have c: "fork_fails (length (spawned (DebugToolkit None ''default'' [])))
             (captured_command ''ps aux'' None) =
           Fails (PyException ''[Errno 11] Resource temporarily unavailable'')"
    by (simp add: fork_fails_def)
  have d: "not_found (length (spawned (DebugToolkit None ''default'' [])))
             (captured_command ''ps aux'' None) =
           Runs (Some 0) 127 [(Stderr, ''/bin/sh: 1: nosuchbinary: not found'')]"
    by (simp add: not_found_def)
  have e: "\<not> outlives (Some 0) 60"
    by (simp add: outlives_def)
  have o: "written Stdout [(Stderr, ''/bin/sh: 1: nosuchbinary: not found'')] @
      written Stderr [(Stderr, ''/bin/sh: 1: nosuchbinary: not found'')] =
      ''/bin/sh: 1: nosuchbinary: not found''"
    by (simp add: written_def)
  from timeout_and_exception_exit_code
      [where ?w1.0 = sleeper and ?w2.0 = fork_fails and ?w3.0 = not_found
         and s = "DebugToolkit None ''default'' []"
         and cmd = "''ps aux''" and host = None, OF a b c d e] o
  show ?thesis
    by simp
qed

section \<open>Navigation\<close>

lemma prints_only_py_print: "prints_only (py_print x)"
  by (auto simp: prints_only_def py_print_def)

lemma prints_only_bind:
  assumes "prints_only m" "prints_only k"
  shows "prints_only (bind m (\<lambda>_. k))"
  unfolding prints_only_def
proof
  fix s
  from assms(1) obtain t where a: "m s = Return () (s\<lparr>tty := tty s @ t\<rparr>)"
    unfolding prints_only_def by blast
  from assms(2) have "\<exists>t'. k (s\<lparr>tty := tty s @ t\<rparr>) =
      Return () (s\<lparr>tty := tty s @ t\<rparr>\<lparr>tty := tty (s\<lparr>tty := tty s @ t\<rparr>) @ t'\<rparr>)"
    unfolding prints_only_def by blast
  then obtain t' where
    b: "k (s\<lparr>tty := tty s @ t\<rparr>) = Return () (s\<lparr>tty := (tty s @ t) @ t'\<rparr>)"
    by auto
  from a b have "bind m (\<lambda>_. k) s = Return () (s\<lparr>tty := tty s @ (t @ t')\<rparr>)"
    by (simp add: bind_def)
  then show "\<exists>t. bind m (\<lambda>_. k) s = Return () (s\<lparr>tty := tty s @ t\<rparr>)" ..
qed

lemma prints_only_do_all: "list_all prints_only ms \<Longrightarrow> prints_only (do_all ms)"
proof (induction ms)
  case Nil
  have "do_all [] = Return ()" by (rule ext) simp
  then show ?case by (auto simp: prints_only_def intro: exI [of _ "[]"])
next
  case (Cons m ms)
  have "do_all (m # ms) = bind m (\<lambda>_. do_all ms)" by (rule ext) simp
  with Cons show ?case by (simp add: prints_only_bind)
qed

lemma prints_only_print_section: "prints_only (print_section t)"
  unfolding print_section_def by (rule prints_only_do_all) (simp add: prints_only_py_print)

lemma prints_only_print_header: "prints_only (print_header t)"
  unfolding print_header_def by (rule prints_only_do_all) (simp add: prints_only_py_print)

lemma prints_only_read:
  assumes "\<And>x. prints_only (f x)" and "\<And>s. rd s = Return (g s) s"
  shows "prints_only (bind rd f)"
  using assms by (simp add: prints_only_def bind_def)

lemma prints_only_screens:
  "prints_only network_screen" "prints_only process_screen" "prints_only log_screen"
  "prints_only resource_screen" "prints_only k8s_screen" "prints_only main_screen"
  unfolding network_screen_def process_screen_def log_screen_def resource_screen_def
    k8s_screen_def main_screen_def
  by (intro prints_only_do_all prints_only_bind prints_only_print_header
      prints_only_read [where rd = get_namespace and g = namespace]
      prints_only_read [where rd = get_remote_host and g = remote_host];
      simp add: prints_only_py_print prints_only_print_section get_namespace_def get_remote_host_def)+

lemma read_choice:
  assumes "prints_only screen" and "stdin s = line # rest"
  shows "\<exists>t. bind screen (\<lambda>_. py_input p) s = Return line (s\<lparr>stdin := rest, tty := tty s @ t\<rparr>)"
proof -
  from assms(1) obtain t where "screen s = Return () (s\<lparr>tty := tty s @ t\<rparr>)"
    unfolding prints_only_def by blast
  with assms(2) have "bind screen (\<lambda>_. py_input p) s =
      Return line (s\<lparr>stdin := rest, tty := tty s @ (t @ [Prompt p])\<rparr>)"
    by (simp add: bind_def py_input_def)
  then show ?thesis ..
qed

lemma main_menu_quit:
  assumes "stdin s = ''q'' # rest"
  shows "\<exists>t. main_menu w s = Return () (s\<lparr>stdin := rest, tty := tty s @ t\<rparr>)"
proof -
  from read_choice [OF prints_only_screens(6) assms] obtain t where
    a: "bind main_screen (\<lambda>_. py_input ''Enter choice: '') s =
       Return ''q'' (s\<lparr>stdin := rest, tty := tty s @ t\<rparr>)"
    by blast
  have c: "main_choice w (strip ''q'') s' = Return True (s'\<lparr>tty := tty s' @ [Print ''\<newline>Goodbye!'']\<rparr>)" for s'
    by (simp add: main_choice_def strip_def is_space_def lower_def lower_char_def uppercase_def lowercase_def bind_def
        py_print_def)
  have "main_menu w s =
      Return () (s\<lparr>stdin := rest, tty := tty s @ (t @ [Print ''\<newline>Goodbye!''])\<rparr>)"
    by (subst main_menu.simps) (simp add: a c)
  then show ?thesis ..
qed

text \<open>
  Whole sessions on given worlds and lines are evaluated with these equations.
\<close>

lemmas console_eval =
  bind_def py_print_def py_input_def do_all.simps print_header_def print_section_def
  get_remote_host_def get_namespace_def set_namespace_def continue_def
  run_cmd_def run_command_def give_def subprocess_run_capture_def captured_command_def
  run_interactive_cmd_def run_interactive_def subprocess_run_inherit_def interactive_command_def
  strip_def is_space_def lower_def lower_char_def uppercase_def lowercase_def py_or_def squote_def
  DebugToolkit_def outlives_def written_def Let_def main_def

text \<open>
  The exact steps of the loops on \<^verbatim>\<open>b\<close> and \<^verbatim>\<open>q\<close>. What a screen writes is
  \<^const>\<open>rendering\<close> of that screen, which the fields \<^const>\<open>stdin\<close> and \<^const>\<open>tty\<close> of the
  console do not influence.
\<close>

lemmas screen_eval =
  rendering_def bind_def do_all.simps print_header_def print_section_def py_print_def
  py_input_def get_remote_host_def get_namespace_def continue_def
  strip_def is_space_def lower_def lower_char_def uppercase_def lowercase_def

lemma network_menu_pops:
  "network_menu w (s\<lparr>stdin := ''b'' # rest\<rparr>) =
     Return () (s\<lparr>stdin := rest,
                  tty := tty s @ rendering network_screen s @ [Prompt ''Enter choice: '']\<rparr>)"
  by (subst network_menu.simps)
    (simp add: screen_eval network_screen_def network_choice_def)

lemma network_menu_pops_next:
  assumes "stdin s \<noteq> []" and "hd (stdin s) = ''b''"
  shows "network_menu w s =
     Return () (s\<lparr>stdin := tl (stdin s),
                  tty := tty s @ rendering network_screen s @ [Prompt ''Enter choice: '']\<rparr>)"
proof -
  from assms have "s = s\<lparr>stdin := ''b'' # tl (stdin s)\<rparr>"
    by (cases "stdin s") simp_all
  then have "network_menu w s = network_menu w (s\<lparr>stdin := ''b'' # tl (stdin s)\<rparr>)"
    by simp
  also have "\<dots> = Return () (s\<lparr>stdin := tl (stdin s),
      tty := tty s @ rendering network_screen s @ [Prompt ''Enter choice: '']\<rparr>)"
    by (rule network_menu_pops)
  finally show ?thesis .
qed

lemma process_menu_pops:
  "process_menu w (s\<lparr>stdin := ''b'' # rest\<rparr>) =
     Return () (s\<lparr>stdin := rest,
                  tty := tty s @ rendering process_screen s @ [Prompt ''Enter choice: '']\<rparr>)"
  by (subst process_menu.simps)
    (simp add: screen_eval process_screen_def process_choice_def)

lemma process_menu_pops_next:
  assumes "stdin s \<noteq> []" and "hd (stdin s) = ''b''"
  shows "process_menu w s =
     Return () (s\<lparr>stdin := tl (stdin s),
                  tty := tty s @ rendering process_screen s @ [Prompt ''Enter choice: '']\<rparr>)"
proof -
  from assms have "s = s\<lparr>stdin := ''b'' # tl (stdin s)\<rparr>"
    by (cases "stdin s") simp_all
  then have "process_menu w s = process_menu w (s\<lparr>stdin := ''b'' # tl (stdin s)\<rparr>)"
    by simp
  also have "\<dots> = Return () (s\<lparr>stdin := tl (stdin s),
      tty := tty s @ rendering process_screen s @ [Prompt ''Enter choice: '']\<rparr>)"
    by (rule process_menu_pops)
  finally show ?thesis .
qed

lemma log_menu_pops:
  "log_menu w (s\<lparr>stdin := ''b'' # rest\<rparr>) =
     Return () (s\<lparr>stdin := rest,
                  tty := tty s @ rendering log_screen s @ [Prompt ''Enter choice: '']\<rparr>)"
  by (subst log_menu.simps)
    (simp add: screen_eval log_screen_def log_choice_def)

lemma log_menu_pops_next:
  assumes "stdin s \<noteq> []" and "hd (stdin s) = ''b''"
  shows "log_menu w s =
     Return () (s\<lparr>stdin := tl (stdin s),
                  tty := tty s @ rendering log_screen s @ [Prompt ''Enter choice: '']\<rparr>)"
proof -
  from assms have "s = s\<lparr>stdin := ''b'' # tl (stdin s)\<rparr>"
    by (cases "stdin s") simp_all
  then have "log_menu w s = log_menu w (s\<lparr>stdin := ''b'' # tl (stdin s)\<rparr>)"
    by simp
  also have "\<dots> = Return () (s\<lparr>stdin := tl (stdin s),
      tty := tty s @ rendering log_screen s @ [Prompt ''Enter choice: '']\<rparr>)"
    by (rule log_menu_pops)
  finally show ?thesis .
qed

lemma resource_menu_pops:
  "resource_menu w (s\<lparr>stdin := ''b'' # rest\<rparr>) =
     Return () (s\<lparr>stdin := rest,
                  tty := tty s @ rendering resource_screen s @ [Prompt ''Enter choice: '']\<rparr>)"
  by (subst resource_menu.simps)
    (simp add: screen_eval resource_screen_def resource_choice_def)

lemma resource_menu_pops_next:
  assumes "stdin s \<noteq> []" and "hd (stdin s) = ''b''"
  shows "resource_menu w s =
     Return () (s\<lparr>stdin := tl (stdin s),
                  tty := tty s @ rendering resource_screen s @ [Prompt ''Enter choice: '']\<rparr>)"
proof -
  from assms have "s = s\<lparr>stdin := ''b'' # tl (stdin s)\<rparr>"
    by (cases "stdin s") simp_all
  then have "resource_menu w s = resource_menu w (s\<lparr>stdin := ''b'' # tl (stdin s)\<rparr>)"
    by simp
  also have "\<dots> = Return () (s\<lparr>stdin := tl (stdin s),
      tty := tty s @ rendering resource_screen s @ [Prompt ''Enter choice: '']\<rparr>)"
    by (rule resource_menu_pops)
  finally show ?thesis .
qed

lemma k8s_menu_pops:
  "k8s_menu w (s\<lparr>stdin := ''b'' # rest\<rparr>) =
     Return () (s\<lparr>stdin := rest,
                  tty := tty s @ rendering k8s_screen s @ [Prompt ''Enter choice: '']\<rparr>)"
  by (subst k8s_menu.simps)
    (simp add: screen_eval k8s_screen_def k8s_choice_def)

lemma k8s_menu_pops_next:
  assumes "stdin s \<noteq> []" and "hd (stdin s) = ''b''"
  shows "k8s_menu w s =
     Return () (s\<lparr>stdin := tl (stdin s),
                  tty := tty s @ rendering k8s_screen s @ [Prompt ''Enter choice: '']\<rparr>)"
proof -
  from assms have "s = s\<lparr>stdin := ''b'' # tl (stdin s)\<rparr>"
    by (cases "stdin s") simp_all
  then have "k8s_menu w s = k8s_menu w (s\<lparr>stdin := ''b'' # tl (stdin s)\<rparr>)"
    by simp
  also have "\<dots> = Return () (s\<lparr>stdin := tl (stdin s),
      tty := tty s @ rendering k8s_screen s @ [Prompt ''Enter choice: '']\<rparr>)"
    by (rule k8s_menu_pops)
  finally show ?thesis .
qed

lemma main_menu_network_round_trip:
  "main_menu w (s\<lparr>stdin := ''1'' # ''b'' # rest\<rparr>) =
     main_menu w (s\<lparr>stdin := rest,
                    tty := tty s @ rendering main_screen s @ [Prompt ''Enter choice: ''] @
                           rendering network_screen s @ [Prompt ''Enter choice: '']\<rparr>)"
  apply (subst main_menu.simps)
  apply (simp add: screen_eval main_screen_def main_choice_def network_menu_pops_next)
  apply (rule arg_cong [where f = "main_menu w"])
  apply (simp add: rendering_def network_screen_def print_section_def py_print_def bind_def
      get_namespace_def)
  done

lemma main_menu_process_round_trip:
  "main_menu w (s\<lparr>stdin := ''2'' # ''b'' # rest\<rparr>) =
     main_menu w (s\<lparr>stdin := rest,
                    tty := tty s @ rendering main_screen s @ [Prompt ''Enter choice: ''] @
                           rendering process_screen s @ [Prompt ''Enter choice: '']\<rparr>)"
  apply (subst main_menu.simps)
  apply (simp add: screen_eval main_screen_def main_choice_def process_menu_pops_next)
  apply (rule arg_cong [where f = "main_menu w"])
  apply (simp add: rendering_def process_screen_def print_section_def py_print_def bind_def
      get_namespace_def)
  done

lemma main_menu_log_round_trip:
  "main_menu w (s\<lparr>stdin := ''3'' # ''b'' # rest\<rparr>) =
     main_menu w (s\<lparr>stdin := rest,
                    tty := tty s @ rendering main_screen s @ [Prompt ''Enter choice: ''] @
                           rendering log_screen s @ [Prompt ''Enter choice: '']\<rparr>)"
  apply (subst main_menu.simps)
  apply (simp add: screen_eval main_screen_def main_choice_def log_menu_pops_next)
  apply (rule arg_cong [where f = "main_menu w"])
  apply (simp add: rendering_def log_screen_def print_section_def py_print_def bind_def
      get_namespace_def)
  done

lemma main_menu_resource_round_trip:
  "main_menu w (s\<lparr>stdin := ''4'' # ''b'' # rest\<rparr>) =
     main_menu w (s\<lparr>stdin := rest,
                    tty := tty s @ rendering main_screen s @ [Prompt ''Enter choice: ''] @
                           rendering resource_screen s @ [Prompt ''Enter choice: '']\<rparr>)"
  apply (subst main_menu.simps)
  apply (simp add: screen_eval main_screen_def main_choice_def resource_menu_pops_next)
  apply (rule arg_cong [where f = "main_menu w"])
  apply (simp add: rendering_def resource_screen_def print_section_def py_print_def bind_def
      get_namespace_def)
  done

lemma main_menu_k8s_round_trip:
  "main_menu w (s\<lparr>stdin := ''5'' # ''b'' # rest\<rparr>) =
     main_menu w (s\<lparr>stdin := rest,
                    tty := tty s @ rendering main_screen s @ [Prompt ''Enter choice: ''] @
                           rendering k8s_screen s @ [Prompt ''Enter choice: '']\<rparr>)"
  apply (subst main_menu.simps)
  apply (simp add: screen_eval main_screen_def main_choice_def k8s_menu_pops_next)
  apply (rule arg_cong [where f = "main_menu w"])
  apply (simp add: rendering_def k8s_screen_def print_section_def py_print_def bind_def
      get_namespace_def)
  done

lemma main_menu_b_no_op:
  "main_menu w (s\<lparr>stdin := ''b'' # rest\<rparr>) =
     main_menu w (s\<lparr>stdin := rest,
                    tty := tty s @ rendering main_screen s @ [Prompt ''Enter choice: '']\<rparr>)"
  apply (subst main_menu.simps)
  apply (simp add: screen_eval main_screen_def main_choice_def)
  apply (rule arg_cong [where f = "main_menu w"])
  apply simp
  done

lemma main_menu_q_quits:
  "main_menu w (s\<lparr>stdin := ''q'' # rest\<rparr>) =
     Return () (s\<lparr>stdin := rest,
                  tty := tty s @ rendering main_screen s @
                         [Prompt ''Enter choice: '', Print ''\<newline>Goodbye!'']\<rparr>)"
  by (subst main_menu.simps)
    (simp add: screen_eval main_screen_def main_choice_def)


lemma rendering_main_screen_tty [simp]:
  "rendering main_screen (s\<lparr>tty := t\<rparr>) = rendering main_screen s"
  by (simp add: screen_eval main_screen_def)

lemma main_menu_round_trip_then_quit:
  assumes "\<And>rest. main_menu w (s\<lparr>stdin := key # ''b'' # rest\<rparr>) =
     main_menu w (s\<lparr>stdin := rest, tty := tty s @ t\<rparr>)"
  shows "main_menu w (s\<lparr>stdin := key # ''b'' # ''q'' # rest\<rparr>) =
     Return () (s\<lparr>stdin := rest,
                  tty := tty s @ t @ rendering main_screen s @
                         [Prompt ''Enter choice: '', Print ''\<newline>Goodbye!'']\<rparr>)"
proof -
  have "main_menu w (s\<lparr>stdin := ''q'' # rest, tty := tty s @ t\<rparr>) =
      main_menu w (s\<lparr>tty := tty s @ t\<rparr>\<lparr>stdin := ''q'' # rest\<rparr>)"
    by (rule arg_cong [where f = "main_menu w"]) simp
  also have "\<dots> = Return () (s\<lparr>tty := tty s @ t\<rparr>\<lparr>stdin := rest,
      tty := tty (s\<lparr>tty := tty s @ t\<rparr>) @ rendering main_screen (s\<lparr>tty := tty s @ t\<rparr>) @
             [Prompt ''Enter choice: '', Print ''\<newline>Goodbye!'']\<rparr>)"
    by (rule main_menu_q_quits)
  finally show ?thesis
    by (simp add: assms)
qed

text \<open>
  C7: push/pop symmetry. The menu tree is two levels deep: the keys \<^verbatim>\<open>1\<close> to \<^verbatim>\<open>5\<close> of the
  root open the five category menus, and no entry of a category menu opens a further
  menu, so a sequence of valid sub-menu keys has length at most one. For each of the five
  keys:

  \<^item> the category menu, given \<^verbatim>\<open>b\<close>, draws its own screen, prompts once and returns, having
    consumed that one line and changed nothing but the terminal;
  \<^item> the root loop, given the key and then \<^verbatim>\<open>b\<close>, draws the root screen, prompts, draws the
    screen of that category, prompts, and is at the head of the root loop again with the
    lines that remain, nothing changed but the terminal;
  \<^item> that it is the root loop that goes on is seen on the next line: with \<^verbatim>\<open>q\<close> as the third
    line the root screen is drawn a second time, followed by the prompt and the farewell,
    and the session ends normally.

  A \<^verbatim>\<open>b\<close> at the root draws the root screen, prompts, and is at the head of the root loop
  again; with \<^verbatim>\<open>q\<close> next, the root screen is drawn twice and the session ends normally: no
  exception, no change of state but the terminal. The screens are told apart by their
  titles: the root screen carries the banner \<^verbatim>\<open>Debug Toolkit\<close>, each category screen its
  own section title and not the banner.
\<close>

theorem push_pop_symmetry:
  "network_menu w (s\<lparr>stdin := ''b'' # rest\<rparr>) =
     Return () (s\<lparr>stdin := rest,
                  tty := tty s @ rendering network_screen s @ [Prompt ''Enter choice: '']\<rparr>) \<and>
   main_menu w (s\<lparr>stdin := ''1'' # ''b'' # rest\<rparr>) =
     main_menu w (s\<lparr>stdin := rest,
                    tty := tty s @ rendering main_screen s @ [Prompt ''Enter choice: ''] @
                           rendering network_screen s @ [Prompt ''Enter choice: '']\<rparr>) \<and>
   main_menu w (s\<lparr>stdin := ''1'' # ''b'' # ''q'' # rest\<rparr>) =
     Return () (s\<lparr>stdin := rest,
                  tty := tty s @ rendering main_screen s @ [Prompt ''Enter choice: ''] @
                         rendering network_screen s @ [Prompt ''Enter choice: ''] @
                         rendering main_screen s @
                         [Prompt ''Enter choice: '', Print ''\<newline>Goodbye!'']\<rparr>) \<and>
   process_menu w (s\<lparr>stdin := ''b'' # rest\<rparr>) =
     Return () (s\<lparr>stdin := rest,
                  tty := tty s @ rendering process_screen s @ [Prompt ''Enter choice: '']\<rparr>) \<and>
   main_menu w (s\<lparr>stdin := ''2'' # ''b'' # rest\<rparr>) =
     main_menu w (s\<lparr>stdin := rest,
                    tty := tty s @ rendering main_screen s @ [Prompt ''Enter choice: ''] @
                           rendering process_screen s @ [Prompt ''Enter choice: '']\<rparr>) \<and>
   main_menu w (s\<lparr>stdin := ''2'' # ''b'' # ''q'' # rest\<rparr>) =
     Return () (s\<lparr>stdin := rest,
                  tty := tty s @ rendering main_screen s @ [Prompt ''Enter choice: ''] @
                         rendering process_screen s @ [Prompt ''Enter choice: ''] @
                         rendering main_screen s @
                         [Prompt ''Enter choice: '', Print ''\<newline>Goodbye!'']\<rparr>) \<and>
   log_menu w (s\<lparr>stdin := ''b'' # rest\<rparr>) =
     Return () (s\<lparr>stdin := rest,
                  tty := tty s @ rendering log_screen s @ [Prompt ''Enter choice: '']\<rparr>) \<and>
   main_menu w (s\<lparr>stdin := ''3'' # ''b'' # rest\<rparr>) =
     main_menu w (s\<lparr>stdin := rest,
                    tty := tty s @ rendering main_screen s @ [Prompt ''Enter choice: ''] @
                           rendering log_screen s @ [Prompt ''Enter choice: '']\<rparr>) \<and>
   main_menu w (s\<lparr>stdin := ''3'' # ''b'' # ''q'' # rest\<rparr>) =
     Return () (s\<lparr>stdin := rest,
                  tty := tty s @ rendering main_screen s @ [Prompt ''Enter choice: ''] @
                         rendering log_screen s @ [Prompt ''Enter choice: ''] @
                         rendering main_screen s @
                         [Prompt ''Enter choice: '', Print ''\<newline>Goodbye!'']\<rparr>) \<and>
   resource_menu w (s\<lparr>stdin := ''b'' # rest\<rparr>) =
     Return () (s\<lparr>stdin := rest,
                  tty := tty s @ rendering resource_screen s @ [Prompt ''Enter choice: '']\<rparr>) \<and>
   main_menu w (s\<lparr>stdin := ''4'' # ''b'' # rest\<rparr>) =
     main_menu w (s\<lparr>stdin := rest,
                    tty := tty s @ rendering main_screen s @ [Prompt ''Enter choice: ''] @
                           rendering resource_screen s @ [Prompt ''Enter choice: '']\<rparr>) \<and>
   main_menu w (s\<lparr>stdin := ''4'' # ''b'' # ''q'' # rest\<rparr>) =
     Return () (s\<lparr>stdin := rest,
                  tty := tty s @ rendering main_screen s @ [Prompt ''Enter choice: ''] @
                         rendering resource_screen s @ [Prompt ''Enter choice: ''] @
                         rendering main_screen s @
                         [Prompt ''Enter choice: '', Print ''\<newline>Goodbye!'']\<rparr>) \<and>
   k8s_menu w (s\<lparr>stdin := ''b'' # rest\<rparr>) =
     Return () (s\<lparr>stdin := rest,
                  tty := tty s @ rendering k8s_screen s @ [Prompt ''Enter choice: '']\<rparr>) \<and>
   main_menu w (s\<lparr>stdin := ''5'' # ''b'' # rest\<rparr>) =
     main_menu w (s\<lparr>stdin := rest,
                    tty := tty s @ rendering main_screen s @ [Prompt ''Enter choice: ''] @
                           rendering k8s_screen s @ [Prompt ''Enter choice: '']\<rparr>) \<and>
   main_menu w (s\<lparr>stdin := ''5'' # ''b'' # ''q'' # rest\<rparr>) =
     Return () (s\<lparr>stdin := rest,
                  tty := tty s @ rendering main_screen s @ [Prompt ''Enter choice: ''] @
                         rendering k8s_screen s @ [Prompt ''Enter choice: ''] @
                         rendering main_screen s @
                         [Prompt ''Enter choice: '', Print ''\<newline>Goodbye!'']\<rparr>) \<and>
   main_menu w (s\<lparr>stdin := ''b'' # rest\<rparr>) =
     main_menu w (s\<lparr>stdin := rest,
                    tty := tty s @ rendering main_screen s @ [Prompt ''Enter choice: '']\<rparr>) \<and>
   main_menu w (s\<lparr>stdin := ''b'' # ''q'' # rest\<rparr>) =
     Return () (s\<lparr>stdin := rest,
                  tty := tty s @ rendering main_screen s @ [Prompt ''Enter choice: ''] @
                         rendering main_screen s @
                         [Prompt ''Enter choice: '', Print ''\<newline>Goodbye!'']\<rparr>) \<and>
   Print (colored (center ''Debug Toolkit'' 50) BOLD) \<in> set (rendering main_screen s) \<and>
   Print (colored ''--- Network Debugging ---'' BOLD) \<in> set (rendering network_screen s) \<and>
   Print (colored (center ''Debug Toolkit'' 50) BOLD) \<notin> set (rendering network_screen s) \<and>
   Print (colored ''--- Process Debugging ---'' BOLD) \<in> set (rendering process_screen s) \<and>
   Print (colored (center ''Debug Toolkit'' 50) BOLD) \<notin> set (rendering process_screen s) \<and>
   Print (colored ''--- Log Analysis ---'' BOLD) \<in> set (rendering log_screen s) \<and>
   Print (colored (center ''Debug Toolkit'' 50) BOLD) \<notin> set (rendering log_screen s) \<and>
   Print (colored ''--- Resource Analysis ---'' BOLD) \<in> set (rendering resource_screen s) \<and>
   Print (colored (center ''Debug Toolkit'' 50) BOLD) \<notin> set (rendering resource_screen s) \<and>
   Print (colored (''--- Kubernetes Debugging (ns: '' @ namespace s @ '') ---'') BOLD) \<in> set (rendering k8s_screen s) \<and>
   Print (colored (center ''Debug Toolkit'' 50) BOLD) \<notin> set (rendering k8s_screen s)"
proof -
  note titles = screen_eval colored_def center_def BOLD_def RESET_def ESC_def
  have network_quit: "main_menu w (s\<lparr>stdin := ''1'' # ''b'' # ''q'' # rest\<rparr>) =
     Return () (s\<lparr>stdin := rest,
                  tty := tty s @ rendering main_screen s @ [Prompt ''Enter choice: ''] @
                         rendering network_screen s @ [Prompt ''Enter choice: ''] @
                         rendering main_screen s @
                         [Prompt ''Enter choice: '', Print ''\<newline>Goodbye!'']\<rparr>)"
    using main_menu_round_trip_then_quit
      [where w = w and s = s and key = "''1''" and rest = rest
         and t = "rendering main_screen s @ [Prompt ''Enter choice: ''] @
                  rendering network_screen s @ [Prompt ''Enter choice: '']",
       OF main_menu_network_round_trip]
    by simp
  have process_quit: "main_menu w (s\<lparr>stdin := ''2'' # ''b'' # ''q'' # rest\<rparr>) =
     Return () (s\<lparr>stdin := rest,
                  tty := tty s @ rendering main_screen s @ [Prompt ''Enter choice: ''] @
                         rendering process_screen s @ [Prompt ''Enter choice: ''] @
                         rendering main_screen s @
                         [Prompt ''Enter choice: '', Print ''\<newline>Goodbye!'']\<rparr>)"
    using main_menu_round_trip_then_quit
      [where w = w and s = s and key = "''2''" and rest = rest
         and t = "rendering main_screen s @ [Prompt ''Enter choice: ''] @
                  rendering process_screen s @ [Prompt ''Enter choice: '']",
       OF main_menu_process_round_trip]
    by simp
  have log_quit: "main_menu w (s\<lparr>stdin := ''3'' # ''b'' # ''q'' # rest\<rparr>) =
     Return () (s\<lparr>stdin := rest,
                  tty := tty s @ rendering main_screen s @ [Prompt ''Enter choice: ''] @
                         rendering log_screen s @ [Prompt ''Enter choice: ''] @
                         rendering main_screen s @
                         [Prompt ''Enter choice: '', Print ''\<newline>Goodbye!'']\<rparr>)"
    using main_menu_round_trip_then_quit
      [where w = w and s = s and key = "''3''" and rest = rest
         and t = "rendering main_screen s @ [Prompt ''Enter choice: ''] @
                  rendering log_screen s @ [Prompt ''Enter choice: '']",
       OF main_menu_log_round_trip]
    by simp
  have resource_quit: "main_menu w (s\<lparr>stdin := ''4'' # ''b'' # ''q'' # rest\<rparr>) =
     Return () (s\<lparr>stdin := rest,
                  tty := tty s @ rendering main_screen s @ [Prompt ''Enter choice: ''] @
                         rendering resource_screen s @ [Prompt ''Enter choice: ''] @
                         rendering main_screen s @
                         [Prompt ''Enter choice: '', Print ''\<newline>Goodbye!'']\<rparr>)"
    using main_menu_round_trip_then_quit
      [where w = w and s = s and key = "''4''" and rest = rest
         and t = "rendering main_screen s @ [Prompt ''Enter choice: ''] @
                  rendering resource_screen s @ [Prompt ''Enter choice: '']",
       OF main_menu_resource_round_trip]
    by simp
  have k8s_quit: "main_menu w (s\<lparr>stdin := ''5'' # ''b'' # ''q'' # rest\<rparr>) =
     Return () (s\<lparr>stdin := rest,
                  tty := tty s @ rendering main_screen s @ [Prompt ''Enter choice: ''] @
                         rendering k8s_screen s @ [Prompt ''Enter choice: ''] @
                         rendering main_screen s @
                         [Prompt ''Enter choice: '', Print ''\<newline>Goodbye!'']\<rparr>)"
    using main_menu_round_trip_then_quit
      [where w = w and s = s and key = "''5''" and rest = rest
         and t = "rendering main_screen s @ [Prompt ''Enter choice: ''] @
                  rendering k8s_screen s @ [Prompt ''Enter choice: '']",
       OF main_menu_k8s_round_trip]
    by simp
  have b_quit: "main_menu w (s\<lparr>stdin := ''b'' # ''q'' # rest\<rparr>) =
     Return () (s\<lparr>stdin := rest,
                  tty := tty s @ rendering main_screen s @ [Prompt ''Enter choice: ''] @
                         rendering main_screen s @
                         [Prompt ''Enter choice: '', Print ''\<newline>Goodbye!'']\<rparr>)"
  proof -
    let ?t = "rendering main_screen s @ [Prompt ''Enter choice: '']"
    have "main_menu w (s\<lparr>stdin := ''b'' # ''q'' # rest\<rparr>) =
        main_menu w (s\<lparr>stdin := ''q'' # rest, tty := tty s @ ?t\<rparr>)"
      by (rule main_menu_b_no_op)
    also have "\<dots> = main_menu w (s\<lparr>tty := tty s @ ?t\<rparr>\<lparr>stdin := ''q'' # rest\<rparr>)"
      by (rule arg_cong [where f = "main_menu w"]) simp
    also have "\<dots> = Return () (s\<lparr>tty := tty s @ ?t\<rparr>\<lparr>stdin := rest,
        tty := tty (s\<lparr>tty := tty s @ ?t\<rparr>) @ rendering main_screen (s\<lparr>tty := tty s @ ?t\<rparr>) @
               [Prompt ''Enter choice: '', Print ''\<newline>Goodbye!'']\<rparr>)"
      by (rule main_menu_q_quits)
    finally show ?thesis
      by simp
  qed
  have main_title:
    "Print (colored (center ''Debug Toolkit'' 50) BOLD) \<in> set (rendering main_screen s)"
    by (simp add: titles main_screen_def)
  have network_title:
    "Print (colored ''--- Network Debugging ---'' BOLD) \<in> set (rendering network_screen s)"
    "Print (colored (center ''Debug Toolkit'' 50) BOLD) \<notin> set (rendering network_screen s)"
    by (simp_all add: titles network_screen_def) (simp_all add: eval_nat_numeral)
  have process_title:
    "Print (colored ''--- Process Debugging ---'' BOLD) \<in> set (rendering process_screen s)"
    "Print (colored (center ''Debug Toolkit'' 50) BOLD) \<notin> set (rendering process_screen s)"
    by (simp_all add: titles process_screen_def) (simp_all add: eval_nat_numeral)
  have log_title:
    "Print (colored ''--- Log Analysis ---'' BOLD) \<in> set (rendering log_screen s)"
    "Print (colored (center ''Debug Toolkit'' 50) BOLD) \<notin> set (rendering log_screen s)"
    by (simp_all add: titles log_screen_def) (simp_all add: eval_nat_numeral)
  have resource_title:
    "Print (colored ''--- Resource Analysis ---'' BOLD) \<in> set (rendering resource_screen s)"
    "Print (colored (center ''Debug Toolkit'' 50) BOLD) \<notin> set (rendering resource_screen s)"
    by (simp_all add: titles resource_screen_def) (simp_all add: eval_nat_numeral)
  have k8s_title:
    "Print (colored (''--- Kubernetes Debugging (ns: '' @ namespace s @ '') ---'') BOLD) \<in> set (rendering k8s_screen s)"
    "Print (colored (center ''Debug Toolkit'' 50) BOLD) \<notin> set (rendering k8s_screen s)"
    by (simp_all add: titles k8s_screen_def) (simp_all add: eval_nat_numeral)
  show ?thesis
    by (intro conjI network_menu_pops main_menu_network_round_trip network_quit network_title process_menu_pops main_menu_process_round_trip process_quit process_title log_menu_pops main_menu_log_round_trip log_quit log_title resource_menu_pops main_menu_resource_round_trip resource_quit resource_title k8s_menu_pops main_menu_k8s_round_trip k8s_quit k8s_title main_menu_b_no_op b_quit main_title)
qed

text \<open>
  C8: a \<^verbatim>\<open>q\<close> at the root ends the loop; the lines that follow it are left unread; the
  process exits with status 0. The exit status is 0 whenever \<^verbatim>\<open>main\<close> returns, whatever
  the exit codes of the commands run in the session.
\<close>

theorem quit_at_root:
  "(\<exists>t. main_menu w (s\<lparr>stdin := ''q'' # rest\<rparr>) =
         Return () (s\<lparr>stdin := rest, tty := tty s @ t\<rparr>)) \<and>
   stdin (state_of (main w host ns (''q'' # rest))) = rest \<and>
   exit_status (main w host ns (''q'' # rest)) = 0 \<and>
   (main w host ns keys = Return u s' \<longrightarrow> exit_status (main w host ns keys) = 0)"
proof -
  have a: "\<exists>t. main_menu w (s\<lparr>stdin := ''q'' # rest\<rparr>) =
      Return () (s\<lparr>stdin := rest, tty := tty s @ t\<rparr>)" for s
    using main_menu_quit [where s = "s\<lparr>stdin := ''q'' # rest\<rparr>" and rest = rest and w = w]
    by simp
  have "stdin (DebugToolkit host n (''q'' # rest)) = ''q'' # rest" for n
    by (simp add: DebugToolkit_def)
  from main_menu_quit [OF this] have
    "\<exists>t. main w host ns (''q'' # rest) =
       Return () ((DebugToolkit host (case ns of None \<Rightarrow> ''default'' | Some n \<Rightarrow> n) (''q'' # rest))
                    \<lparr>stdin := rest, tty := t\<rparr>)"
    by (auto simp: main_def)
  then have b: "stdin (state_of (main w host ns (''q'' # rest))) = rest"
    "exit_status (main w host ns (''q'' # rest)) = 0"
    by (auto simp: exit_status_def)
  have c: "main w host ns keys = Return u s' \<longrightarrow> exit_status (main w host ns keys) = 0"
    by (simp add: exit_status_def)
  from a b c show ?thesis by blast
qed

theorem quit_at_root_witness:
  "exit_status (main silent_failure None None [''2'', ''7'', ''b'', ''q'']) = 0 \<and>
   returned (state_of (main silent_failure None None [''2'', ''7'', ''b'', ''q''])) = [(1, [])]"
proof -
  have "\<exists>s'. main silent_failure None None [''2'', ''7'', ''b'', ''q''] = Return () s' \<and>
      returned s' = [(1, [])]"
    by (simp add: console_eval main_menu.simps process_menu.simps main_screen_def
        main_choice_def process_screen_def process_choice_def zombie_processes_def
        silent_failure_def colored_def)
  then obtain s' where e: "main silent_failure None None [''2'', ''7'', ''b'', ''q''] = Return () s'"
    and r: "returned s' = [(1, [])]"
    by blast
  from quit_at_root [where w = silent_failure and host = None and ns = None
      and keys = "[''2'', ''7'', ''b'', ''q'']" and u = "()" and s' = s'] e
  have "exit_status (main silent_failure None None [''2'', ''7'', ''b'', ''q'']) = 0"
    by blast
  with e r show ?thesis by simp
qed

section \<open>The namespace of the session\<close>

lemma run_cmd_cases:
  obtains (Raise) "run_cmd w c s =
      Raise KeyboardInterrupt
        (s\<lparr>spawned := spawned s @ [Spawn (captured_command c (remote_host s)) True (Some 60)]\<rparr>)"
  | (Return) r where "run_cmd w c s =
      Return r
        (s\<lparr>spawned := spawned s @ [Spawn (captured_command c (remote_host s)) True (Some 60)],
            returned := returned s @ [r]\<rparr>)"
proof (cases "w (length (spawned s)) (captured_command c (remote_host s))")
  case (Fails e)
  then show ?thesis
    by (cases e) (auto simp: run_cmd_def run_command_Fails give_def intro: Raise Return)
next
  case (Runs d rc ws)
  then show ?thesis
    by (auto simp: run_cmd_def run_command_Runs give_def intro: Return)
qed

lemma change_namespace_Return:
  assumes "change_namespace w s = Return u s'"
  shows "\<exists>line. stdin s = line # stdin s' \<and> namespace s' = strip line"
proof (cases rule: run_cmd_cases [where w = w and s = s
      and c = "''kubectl get ns --no-headers | awk '' @ squote ''{print $1}''"])
  case Raise
  with assms show ?thesis
    by (simp add: change_namespace_def bind_def)
next
  case (Return r)
  with assms show ?thesis
    by (cases r; cases "stdin s")
      (auto simp: change_namespace_def bind_def py_print_def py_input_def set_namespace_def)
qed

lemma preservesD: "preserves R m \<Longrightarrow> R s (state_of (m s))"
  by (simp add: preserves_def)

text \<open>
  The blanks that \<^verbatim>\<open>str.strip\<close> removes are those of \<^verbatim>\<open>str.isspace\<close>: besides the ASCII
  blanks and the separators U+001C to U+001F, the next-line control U+0085 and the
  no-break space U+00A0.
\<close>

lemma strip_blank_code_points:
  "strip [CHR 0xA0] = []"
  "strip [CHR 0x85, CHR 0x1C] = []"
  "strip ([CHR 0xA0] @ ''staging'' @ [CHR 0x85]) = ''staging''"
  "strip ''kube system'' = ''kube system''"
  by (simp_all add: strip_def is_space_def)




section \<open>The namespace in the commands\<close>

lemma flagged_refl: "reflp (flagged ns)"
  by (simp add: reflp_def flagged_def new_commands_def)

lemma new_commands_trans:
  assumes "prefix (spawned s) (spawned s')" "prefix (spawned s') (spawned s'')"
  shows "new_commands s s'' = new_commands s s' @ new_commands s' s''"
proof -
  from assms obtain a b where "spawned s' = spawned s @ a" "spawned s'' = spawned s' @ b"
    by (auto simp: prefix_def)
  then show ?thesis by (simp add: new_commands_def)
qed

lemma flagged_trans: "transp (flagged ns)"
proof (rule transpI)
  fix s s' s''
  assume a: "flagged ns s s'" and b: "flagged ns s' s''"
  show "flagged ns s s''"
    unfolding flagged_def
  proof
    assume n: "namespace s = ns"
    with a have a': "namespace s' = ns" "prefix (spawned s) (spawned s')"
      "list_all (passes_namespace ns) (new_commands s s')"
      by (simp_all add: flagged_def)
    with b have b': "namespace s'' = ns" "prefix (spawned s') (spawned s'')"
      "list_all (passes_namespace ns) (new_commands s' s'')"
      by (simp_all add: flagged_def)
    from a'(2) b'(2) have "prefix (spawned s) (spawned s'')"
      by (rule prefix_order.trans)
    with a' b' show "namespace s'' = ns \<and> prefix (spawned s) (spawned s'') \<and>
        list_all (passes_namespace ns) (new_commands s s'')"
      by (simp add: new_commands_trans [OF a'(2) b'(2)])
  qed
qed

lemma flagged_quiet:
  "preserves (flagged ns) (py_print t)" "preserves (flagged ns) (py_input p)"
  by (auto simp: preserves_def flagged_def new_commands_def py_print_def py_input_def Let_def
      split: list.splits)

lemma flagged_get_namespace:
  assumes "preserves (flagged ns) (f ns)"
  shows "preserves (flagged ns) (bind get_namespace f)"
  using assms by (simp add: preserves_def flagged_def bind_def get_namespace_def)

lemma passes_wrapped:
  assumes "passes_namespace ns cmd"
  shows "passes_namespace ns (pre @ cmd @ post)"
proof -
  from assms obtain ps ss where "cmd = ps @ ('' -n '' @ ns @ '' '') @ ss"
    unfolding passes_namespace_def sublist_def by blast
  then have "pre @ cmd @ post = (pre @ ps) @ ('' -n '' @ ns @ '' '') @ (ss @ post)"
    by simp
  then show ?thesis
    unfolding passes_namespace_def sublist_def by blast
qed

lemma passes_captured:
  assumes "passes_namespace ns cmd"
  shows "passes_namespace ns (captured_command cmd host)"
proof (cases "host = None \<or> host = Some []")
  case True
  with assms show ?thesis by (auto simp: captured_command_def)
next
  case False
  then obtain h where "host = Some h" "h \<noteq> []" by auto
  then have "captured_command cmd host =
      (''ssh -o ConnectTimeout=10 -o BatchMode=yes '' @ h @ '' '' @ [CHR 0x27]) @ cmd @ [CHR 0x27]"
    by (simp add: captured_command_def squote_def)
  with passes_wrapped [OF assms] show ?thesis by metis
qed

lemma passes_interactive:
  assumes "passes_namespace ns cmd"
  shows "passes_namespace ns (interactive_command cmd host)"
proof (cases "host = None \<or> host = Some []")
  case True
  with assms show ?thesis by (auto simp: interactive_command_def)
next
  case False
  then obtain h where "host = Some h" "h \<noteq> []" by auto
  then have "interactive_command cmd host =
      (''ssh -t '' @ h @ '' '' @ [CHR 0x27]) @ cmd @ [CHR 0x27]"
    by (simp add: interactive_command_def squote_def)
  with passes_wrapped [OF assms] show ?thesis by metis
qed

lemma flagged_run_cmd:
  assumes "passes_namespace ns cmd"
  shows "preserves (flagged ns) (run_cmd w cmd)"
  using passes_captured [OF assms]
  by (auto simp: preserves_def flagged_def new_commands_def run_cmd_def run_command_def
      subprocess_run_capture_def give_def Let_def split: behaviour.splits py_exception.splits)

lemma flagged_run_interactive_cmd:
  assumes "passes_namespace ns cmd"
  shows "preserves (flagged ns) (run_interactive_cmd w cmd)"
  using passes_interactive [OF assms]
  by (auto simp: preserves_def flagged_def new_commands_def run_interactive_cmd_def
      run_interactive_def subprocess_run_inherit_def Let_def
      split: behaviour.splits py_exception.splits)

lemma passes_namespaceI: "cmd = pre @ '' -n '' @ ns @ '' '' @ post \<Longrightarrow> passes_namespace ns cmd"
  unfolding passes_namespace_def
  by (metis append.assoc sublist_appendI)

lemma flagged_after:
  "(\<And>a. preserves (flagged ns) (f a)) \<Longrightarrow> preserves (flagged ns) (bind (py_print t) f)"
  "(\<And>a. preserves (flagged ns) (g a)) \<Longrightarrow> preserves (flagged ns) (bind (py_input p) g)"
  "list_all (preserves (flagged ns)) ms \<Longrightarrow> (\<And>a. preserves (flagged ns) (h a)) \<Longrightarrow>
     preserves (flagged ns) (bind (do_all ms) h)"
  "passes_namespace ns cmd \<Longrightarrow> (\<And>a. preserves (flagged ns) (k a)) \<Longrightarrow>
     preserves (flagged ns) (bind (run_cmd w cmd) k)"
  by (intro preserves_bind [OF flagged_trans] flagged_quiet flagged_run_cmd
      preserves_do_all [OF flagged_refl flagged_trans]; assumption)+

lemma k8s_commands_pass:
  "passes_namespace ns (''kubectl get pods -n '' @ ns @ '' -o wide'')"
  "passes_namespace ns (''kubectl get pods -n '' @ ns @ '' --no-headers'')"
  "passes_namespace ns (''kubectl logs '' @ pod @ '' -n '' @ ns @ '' '' @ flag @ '' --tail=100'')"
  "passes_namespace ns (''kubectl logs '' @ pod @ '' -n '' @ ns @ '' '' @ flag @ '' -f'')"
  "passes_namespace ns (''kubectl logs '' @ pod @ '' -n '' @ ns @ '' '' @ flag @ '' --previous --tail=100'')"
  "passes_namespace ns (''kubectl exec -it '' @ pod @ '' -n '' @ ns @ '' -- '' @ shell)"
  "passes_namespace ns (''kubectl describe '' @ resource @ '' '' @ name @ '' -n '' @ ns @ '' | less'')"
  "passes_namespace ns (''kubectl port-forward '' @ pod @ '' -n '' @ ns @ '' '' @ ports)"
  "passes_namespace ns (''kubectl get events -n '' @ ns @ '' --sort-by='' @ quoted @ '' | tail -30'')"
proof -
  show "passes_namespace ns (''kubectl get pods -n '' @ ns @ '' -o wide'')"
    by (rule passes_namespaceI [where pre = "''kubectl get pods''" and post = "''-o wide''"]) simp
  show "passes_namespace ns (''kubectl get pods -n '' @ ns @ '' --no-headers'')"
    by (rule passes_namespaceI [where pre = "''kubectl get pods''" and post = "''--no-headers''"]) simp
  show "passes_namespace ns (''kubectl logs '' @ pod @ '' -n '' @ ns @ '' '' @ flag @ '' --tail=100'')"
    by (rule passes_namespaceI [where pre = "''kubectl logs '' @ pod" and post = "flag @ '' --tail=100''"]) simp
  show "passes_namespace ns (''kubectl logs '' @ pod @ '' -n '' @ ns @ '' '' @ flag @ '' -f'')"
    by (rule passes_namespaceI [where pre = "''kubectl logs '' @ pod" and post = "flag @ '' -f''"]) simp
  show "passes_namespace ns (''kubectl logs '' @ pod @ '' -n '' @ ns @ '' '' @ flag @ '' --previous --tail=100'')"
    by (rule passes_namespaceI [where pre = "''kubectl logs '' @ pod"
          and post = "flag @ '' --previous --tail=100''"]) simp
  show "passes_namespace ns (''kubectl exec -it '' @ pod @ '' -n '' @ ns @ '' -- '' @ shell)"
    by (rule passes_namespaceI [where pre = "''kubectl exec -it '' @ pod" and post = "''-- '' @ shell"]) simp
  show "passes_namespace ns (''kubectl describe '' @ resource @ '' '' @ name @ '' -n '' @ ns @ '' | less'')"
    by (rule passes_namespaceI [where pre = "''kubectl describe '' @ resource @ '' '' @ name"
          and post = "''| less''"]) simp
  show "passes_namespace ns (''kubectl port-forward '' @ pod @ '' -n '' @ ns @ '' '' @ ports)"
    by (rule passes_namespaceI [where pre = "''kubectl port-forward '' @ pod" and post = ports]) simp
  show "passes_namespace ns (''kubectl get events -n '' @ ns @ '' --sort-by='' @ quoted @ '' | tail -30'')"
    by (rule passes_namespaceI [where pre = "''kubectl get events''"
          and post = "''--sort-by='' @ quoted @ '' | tail -30''"]) simp
qed

lemmas flagged_intros =
  flagged_get_namespace flagged_after preserves_Return [OF flagged_refl]
  preserves_if preserves_case_prod
  flagged_quiet flagged_run_cmd flagged_run_interactive_cmd k8s_commands_pass

lemma flagged_k8s_actions:
  "preserves (flagged ns) (k8s_pod_status w)" "preserves (flagged ns) (k8s_logs w)"
  "preserves (flagged ns) (k8s_exec w)" "preserves (flagged ns) (k8s_describe w)"
  "preserves (flagged ns) (k8s_port_forward w)" "preserves (flagged ns) (k8s_events w)"
  unfolding k8s_pod_status_def k8s_logs_def k8s_exec_def k8s_describe_def
    k8s_port_forward_def k8s_events_def
  by (intro flagged_intros; simp add: flagged_quiet)+

text \<open>
  C6, as stated, fails: \<^verbatim>\<open>k8s_nodes\<close> is a Kubernetes action and neither of its two
  command lines carries the namespace.
\<close>

theorem k8s_nodes_without_namespace:
  "map (passes_namespace ''staging'')
     (new_commands (DebugToolkit None ''staging'' [])
        (state_of (k8s_nodes silent_failure (DebugToolkit None ''staging'' [])))) = [False, False] \<and>
   map (sublist ''staging'')
     (new_commands (DebugToolkit None ''staging'' [])
        (state_of (k8s_nodes silent_failure (DebugToolkit None ''staging'' [])))) = [False, False] \<and>
   hd (new_commands (DebugToolkit None ''staging'' [])
        (state_of (k8s_nodes silent_failure (DebugToolkit None ''staging'' [])))) =
     ''kubectl get nodes -o wide''"
  by (simp add: console_eval k8s_nodes_def silent_failure_def new_commands_def
      passes_namespace_def sublist_code)

lemma k8s_pod_status_commands:
  "new_commands s (state_of (k8s_pod_status w s)) =
     [captured_command (''kubectl get pods -n '' @ namespace s @ '' -o wide'') (remote_host s)]"
  by (cases rule: run_cmd_cases [where w = w and s = s
        and c = "''kubectl get pods -n '' @ namespace s @ '' -o wide''"])
    (simp_all add: k8s_pod_status_def bind_def get_namespace_def py_print_def new_commands_def
      split: prod.splits)

text \<open>
  C6, amended: every command line built by the actions on namespaced resources (pod
  status, logs, exec, describe, port-forward, events) carries the flag \<^verbatim>\<open>-n\<close> with the
  namespace of the session at that moment. Once \<^verbatim>\<open>change_namespace\<close> has changed the
  namespace from \<^verbatim>\<open>default\<close> to \<^verbatim>\<open>staging\<close>, the command of the pod status action is
  \<^verbatim>\<open>kubectl get pods -n staging -o wide\<close> (wrapped for the remote host, if one is set),
  which contains \<^verbatim>\<open>staging\<close> and not \<^verbatim>\<open>default\<close>.
\<close>

theorem namespaced_commands:
  "list_all (passes_namespace (namespace s)) (new_commands s (state_of (k8s_pod_status w s))) \<and>
   list_all (passes_namespace (namespace s)) (new_commands s (state_of (k8s_logs w s))) \<and>
   list_all (passes_namespace (namespace s)) (new_commands s (state_of (k8s_exec w s))) \<and>
   list_all (passes_namespace (namespace s)) (new_commands s (state_of (k8s_describe w s))) \<and>
   list_all (passes_namespace (namespace s)) (new_commands s (state_of (k8s_port_forward w s))) \<and>
   list_all (passes_namespace (namespace s)) (new_commands s (state_of (k8s_events w s))) \<and>
   (namespace s = ''default'' \<and> stdin s = ''staging'' # rest \<and>
    change_namespace w s = Return u s1 \<longrightarrow>
      namespace s1 = ''staging'' \<and>
      new_commands s1 (state_of (k8s_pod_status w s1)) =
        [captured_command ''kubectl get pods -n staging -o wide'' (remote_host s1)] \<and>
      sublist ''staging'' ''kubectl get pods -n staging -o wide'' \<and>
      \<not> sublist ''default'' ''kubectl get pods -n staging -o wide'')"
proof -
  have a: "list_all (passes_namespace (namespace s)) (new_commands s (state_of (m s)))"
    if "preserves (flagged (namespace s)) m" for m :: "console \<Rightarrow> unit result"
    using preservesD [OF that, where s = s] by (simp add: flagged_def)
  have b: "namespace s1 = ''staging'' \<and>
      new_commands s1 (state_of (k8s_pod_status w s1)) =
        [captured_command ''kubectl get pods -n staging -o wide'' (remote_host s1)]"
    if "stdin s = ''staging'' # rest" "change_namespace w s = Return u s1"
  proof -
    from change_namespace_Return [OF that(2)] that(1) have "namespace s1 = ''staging''"
      by (auto simp: strip_def is_space_def)
    then show ?thesis
      by (simp add: k8s_pod_status_commands)
  qed
  have c: "sublist ''staging'' ''kubectl get pods -n staging -o wide''"
    "\<not> sublist ''default'' ''kubectl get pods -n staging -o wide''"
    by (simp_all add: sublist_code)
  from a [OF flagged_k8s_actions(1)] a [OF flagged_k8s_actions(2)] a [OF flagged_k8s_actions(3)]
    a [OF flagged_k8s_actions(4)] a [OF flagged_k8s_actions(5)] a [OF flagged_k8s_actions(6)]
    b c
  show ?thesis by blast
qed

theorem namespaced_commands_witness:
  "new_commands
     (state_of (change_namespace silent_failure (DebugToolkit None ''default'' [''staging''])))
     (state_of (k8s_pod_status silent_failure
        (state_of (change_namespace silent_failure (DebugToolkit None ''default'' [''staging'']))))) =
     [''kubectl get pods -n staging -o wide''] \<and>
   \<not> sublist ''default'' ''kubectl get pods -n staging -o wide''"
proof -
  let ?s = "DebugToolkit None ''default'' [''staging'']"
  have "\<exists>s1. change_namespace silent_failure ?s = Return () s1 \<and> remote_host s1 = None"
    by (simp add: console_eval change_namespace_def silent_failure_def colored_def)
  then obtain s1 where r: "change_namespace silent_failure ?s = Return () s1"
    and h: "remote_host s1 = None"
    by blast
  have "namespace ?s = ''default'' \<and> stdin ?s = ''staging'' # [] \<and>
      change_namespace silent_failure ?s = Return () s1"
    using r by (simp add: DebugToolkit_def)
  with namespaced_commands [where w = silent_failure and s = ?s and rest = "[]" and u = "()"
      and ?s1.0 = s1]
  have "new_commands s1 (state_of (k8s_pod_status silent_failure s1)) =
        [captured_command ''kubectl get pods -n staging -o wide'' (remote_host s1)] \<and>
      \<not> sublist ''default'' ''kubectl get pods -n staging -o wide''"
    by blast
  with r h show ?thesis
    by (simp add: captured_command_def)
qed

section \<open>Rendering of captured output\<close>

lemma silent_primitives:
  "silent (py_print t)" "silent (py_input p)" "silent get_namespace" "silent (set_namespace ns)"
  "silent (run_interactive_cmd w c)"
proof -
  show "silent (py_print t)"
    by (simp add: silent_def py_print_def)
  show "silent (py_input p)"
    unfolding silent_def
  proof
    fix s
    show "prefix (tty s) (tty (state_of (py_input p s))) \<and>
        returned (state_of (py_input p s)) = returned s"
      by (cases "stdin s") (simp_all add: py_input_def)
  qed
  show "silent get_namespace"
    by (simp add: silent_def get_namespace_def)
  show "silent (set_namespace ns)"
    by (simp add: silent_def set_namespace_def)
  show "silent (run_interactive_cmd w c)"
    unfolding silent_def
  proof
    fix s
    show "prefix (tty s) (tty (state_of (run_interactive_cmd w c s))) \<and>
        returned (state_of (run_interactive_cmd w c s)) = returned s"
    proof (cases "w (length (spawned s)) (interactive_command c (remote_host s))")
      case (Fails e)
      then show ?thesis
        by (cases e)
          (simp_all add: run_interactive_cmd_def run_interactive_def subprocess_run_inherit_def)
    next
      case (Runs d rc ws)
      then show ?thesis
        by (simp add: run_interactive_cmd_def run_interactive_def subprocess_run_inherit_def)
    qed
  qed
qed

lemma silent_bind:
  assumes "silent m" "\<And>a. silent (f a)"
  shows "silent (bind m f)"
  unfolding silent_def
proof
  fix s
  show "prefix (tty s) (tty (state_of (bind m f s))) \<and> returned (state_of (bind m f s)) = returned s"
  proof (cases "m s")
    case (Return a s1)
    from assms(1) have "prefix (tty s) (tty (state_of (m s))) \<and> returned (state_of (m s)) = returned s"
      unfolding silent_def by blast
    with Return have a: "prefix (tty s) (tty s1)" "returned s1 = returned s" by simp_all
    from assms(2) have "prefix (tty s1) (tty (state_of (f a s1))) \<and> returned (state_of (f a s1)) = returned s1"
      unfolding silent_def by blast
    with a Return show ?thesis
      by (auto simp: bind_def intro: prefix_order.trans)
  next
    case (Raise e s1)
    from assms(1) have "prefix (tty s) (tty (state_of (m s))) \<and> returned (state_of (m s)) = returned s"
      unfolding silent_def by blast
    with Raise show ?thesis by (simp add: bind_def)
  qed
qed

lemma silent_do_all: "list_all silent ms \<Longrightarrow> silent (do_all ms)"
proof (induction ms)
  case Nil
  have "do_all [] = Return ()" by (rule ext) simp
  then show ?case by (simp add: silent_def)
next
  case (Cons m ms)
  have "do_all (m # ms) = bind m (\<lambda>_. do_all ms)" by (rule ext) simp
  with Cons show ?case by (simp add: silent_bind)
qed

lemma renders_silent: "silent m \<Longrightarrow> preserves (renders rs) m"
  by (simp add: silent_def preserves_def renders_def new_results_def)

lemma renders_Return: "preserves (renders rs) (Return a)"
  by (simp add: preserves_def renders_def new_results_def)

lemma renders_after_silent:
  assumes "silent m" "\<And>a. preserves (renders rs) (f a)"
  shows "preserves (renders rs) (bind m f)"
  unfolding preserves_def
proof
  fix s
  from assms(1) have m: "prefix (tty s) (tty (state_of (m s)))" "returned (state_of (m s)) = returned s"
    unfolding silent_def by blast+
  show "renders rs s (state_of (bind m f s))"
  proof (cases "m s")
    case (Raise e s1)
    with m show ?thesis by (simp add: bind_def renders_def new_results_def)
  next
    case (Return a s1)
    with m have m1: "prefix (tty s) (tty s1)" "returned s1 = returned s" by simp_all
    from assms(2) have r: "renders rs s1 (state_of (f a s1))"
      unfolding preserves_def by blast
    let ?s2 = "state_of (f a s1)"
    from m1 obtain e where e: "tty s1 = tty s @ e" by (auto simp: prefix_def)
    from r obtain e' where e': "tty ?s2 = tty s1 @ e'" by (auto simp: renders_def prefix_def)
    have "set (new_events s1 ?s2) \<subseteq> set (new_events s ?s2)"
      using e e' by (simp add: new_events_def)
    moreover have "new_results s ?s2 = new_results s1 ?s2"
      using m1 by (simp add: new_results_def)
    ultimately have "renders rs s ?s2"
      using r m1 e e' unfolding renders_def
      by (auto simp: list_all_iff)
    with Return show ?thesis by (simp add: bind_def)
  qed
qed

lemma owes_print_last: "owes text rs (py_print text)"
  by (simp add: owes_def renders_def new_events_def new_results_def py_print_def)

lemma owes_print:
  assumes "preserves (renders rs) m"
  shows "owes text rs (bind (py_print text) (\<lambda>_. m))"
  unfolding owes_def
proof
  fix s :: console
  let ?s1 = "s\<lparr>tty := tty s @ [Print text]\<rparr>"
  let ?s2 = "state_of (m ?s1)"
  from assms have r: "renders rs ?s1 ?s2"
    unfolding preserves_def by blast
  then obtain e where e: "tty ?s2 = tty ?s1 @ e"
    by (auto simp: renders_def prefix_def)
  then have ev: "new_events s ?s2 = Print text # new_events ?s1 ?s2"
    by (simp add: new_events_def)
  have nr: "new_results s ?s2 = new_results ?s1 ?s2"
    by (simp add: new_results_def)
  from r e have "renders rs s ?s2"
    unfolding renders_def ev nr by (auto simp: list_all_iff)
  moreover have "bind (py_print text) (\<lambda>_. m) s = m ?s1"
    by (simp add: bind_def py_print_def)
  ultimately show "renders rs s (state_of (bind (py_print text) (\<lambda>_. m) s)) \<and>
      Print text \<in> set (new_events s (state_of (bind (py_print text) (\<lambda>_. m) s)))"
    using ev by simp
qed

lemma owes_after_print:
  assumes "owes text rs m"
  shows "owes text rs (bind (py_print header) (\<lambda>_. m))"
  unfolding owes_def
proof
  fix s :: console
  let ?s1 = "s\<lparr>tty := tty s @ [Print header]\<rparr>"
  let ?s2 = "state_of (m ?s1)"
  from assms have r: "renders rs ?s1 ?s2" and p: "Print text \<in> set (new_events ?s1 ?s2)"
    unfolding owes_def by blast+
  from r obtain e where e: "tty ?s2 = tty ?s1 @ e"
    by (auto simp: renders_def prefix_def)
  then have ev: "new_events s ?s2 = Print header # new_events ?s1 ?s2"
    by (simp add: new_events_def)
  have nr: "new_results s ?s2 = new_results ?s1 ?s2"
    by (simp add: new_results_def)
  from r e have "renders rs s ?s2"
    unfolding renders_def ev nr by (auto simp: list_all_iff)
  moreover have "bind (py_print header) (\<lambda>_. m) s = m ?s1"
    by (simp add: bind_def py_print_def)
  ultimately show "renders rs s (state_of (bind (py_print header) (\<lambda>_. m) s)) \<and>
      Print text \<in> set (new_events s (state_of (bind (py_print header) (\<lambda>_. m) s)))"
    using ev p by simp
qed

lemma renders_run:
  assumes "\<And>code output. owes (render output) rs (k code output)"
  shows "preserves (renders (render # rs)) (bind (run_cmd w c) (case_prod k))"
  unfolding preserves_def
proof
  fix s
  show "renders (render # rs) s (state_of (bind (run_cmd w c) (case_prod k) s))"
  proof (cases "run_cmd w c s")
    case (Raise e s1)
    then have "tty s1 = tty s" "returned s1 = returned s"
      by (auto simp: run_cmd_def run_command_def subprocess_run_capture_def give_def Let_def
          split: behaviour.splits py_exception.splits if_splits)
    with Raise show ?thesis by (simp add: bind_def renders_def new_results_def)
  next
    case (Return r s1)
    obtain code out where r: "r = (code, out)" by (cases r)
    from Return r have s1: "tty s1 = tty s" "returned s1 = returned s @ [(code, out)]"
      by (auto simp: run_cmd_def run_command_def subprocess_run_capture_def give_def Let_def
          split: behaviour.splits py_exception.splits if_splits)
    let ?s3 = "state_of (k code out s1)"
    from assms have k: "renders rs s1 ?s3" and p: "Print (render out) \<in> set (new_events s1 ?s3)"
      unfolding owes_def by blast+
    from k obtain n' where n': "returned ?s3 = returned s1 @ n'"
      by (auto simp: renders_def prefix_def)
    from s1 have ev: "new_events s ?s3 = new_events s1 ?s3"
      by (simp add: new_events_def)
    from n' s1 have nr: "new_results s ?s3 = (code, out) # new_results s1 ?s3"
      by (simp add: new_results_def)
    from k n' s1 p have "renders (render # rs) s ?s3"
      unfolding renders_def ev nr by (auto simp: list_all_iff)
    with Return r show ?thesis by (simp add: bind_def)
  qed
qed

lemma silent_list: "list_all silent []" "silent m \<Longrightarrow> list_all silent ms \<Longrightarrow> list_all silent (m # ms)"
  by simp_all

lemmas renders_rules =
  renders_run owes_print_last owes_print owes_after_print
  renders_after_silent [OF silent_primitives(1)] renders_after_silent [OF silent_primitives(2)]
  renders_after_silent [OF silent_primitives(3)] renders_after_silent [OF silent_primitives(4)]
  renders_after_silent [OF silent_do_all]
  renders_silent [OF silent_primitives(1)] renders_silent [OF silent_primitives(5)]
  renders_Return preserves_if silent_list silent_primitives

lemma run_cmd_if:
  "(if b then run_cmd w c else run_cmd w c') = run_cmd w (if b then c else c')"
  by simp

lemma owes_either:
  "owes (if output \<noteq> [] then output else text) rs
     (if output \<noteq> [] then bind (py_print header) (\<lambda>_. py_print output) else py_print text)"
  by (cases "output \<noteq> []")
    (simp_all add: owes_after_print owes_print_last)

lemma renders_verbatim_actions:
  "preserves (renders [verbatim]) (ping_test w)"
  "preserves (renders [verbatim]) (show_connections w)"
  "preserves (renders [verbatim]) (interface_stats w)"
  "preserves (renders [verbatim]) (top_by_cpu w)"
  "preserves (renders [verbatim]) (top_by_memory w)"
  "preserves (renders [verbatim]) (thread_analysis w)"
  "preserves (renders [verbatim]) (dmesg_logs w)"
  "preserves (renders [verbatim]) (failed_services w)"
  "preserves (renders [verbatim]) (cpu_info w)"
  "preserves (renders [verbatim]) (io_stats w)"
  "preserves (renders [verbatim]) (k8s_pod_status w)"
  "preserves (renders [verbatim]) (k8s_events w)"
  "preserves (renders [verbatim]) (change_namespace w)"
  "preserves (renders [verbatim, verbatim]) (memory_details w)"
  "preserves (renders [verbatim, verbatim]) (disk_usage w)"
  "preserves (renders [verbatim, verbatim]) (k8s_logs w)"
  "preserves (renders [verbatim, verbatim]) (k8s_nodes w)"
  unfolding ping_test_def show_connections_def interface_stats_def top_by_cpu_def
    top_by_memory_def thread_analysis_def dmesg_logs_def failed_services_def cpu_info_def
    io_stats_def k8s_pod_status_def k8s_events_def change_namespace_def memory_details_def
    disk_usage_def k8s_logs_def k8s_nodes_def verbatim_def
  by (rule renders_rules)+

lemma renders_placeholder_actions:
  "preserves (renders [verbatim, or_placeholder ''No results'']) (dns_test w)"
  "preserves (renders [or_placeholder ''No matching processes'']) (find_process w)"
  "preserves (renders [or_placeholder ''No results (may require root)'']) (open_files w)"
  "preserves (renders [or_placeholder (colored ''\<newline>No zombie processes'' GREEN)])
     (zombie_processes w)"
  "preserves (renders [or_placeholder ''Auth log not found'']) (auth_logs w)"
  "preserves (renders [or_placeholder ''No matches found'']) (search_logs w)"
  "preserves (renders [or_placeholder ''No errors in the last hour'']) (recent_errors w)"
  unfolding dns_test_def find_process_def open_files_def zombie_processes_def auth_logs_def
    search_logs_def recent_errors_def verbatim_def or_placeholder_def run_cmd_if
  by (rule renders_rules owes_either)+

text \<open>
  C9, as stated, fails: \<^verbatim>\<open>show_connections\<close> and \<^verbatim>\<open>k8s_pod_status\<close> print a captured
  output as it is. On an empty output they print an empty line and no placeholder.
\<close>

theorem empty_output_without_placeholder:
  "tty (state_of (show_connections silent_failure (DebugToolkit None ''default'' []))) =
     [Print ''\<newline>Active connections:'', Print []] \<and>
   returned (state_of (show_connections silent_failure (DebugToolkit None ''default'' []))) =
     [(1, [])] \<and>
   tty (state_of (k8s_pod_status silent_failure (DebugToolkit None ''default'' []))) =
     [Print []]"
  by (simp add: console_eval show_connections_def k8s_pod_status_def silent_failure_def)

text \<open>
  C9, amended: every leaf action other than \<^verbatim>\<open>port_scan\<close> and \<^verbatim>\<open>memory_pressure\<close> prints
  the output of each captured execution it makes. \<^verbatim>\<open>find_process\<close>, \<^verbatim>\<open>open_files\<close>,
  \<^verbatim>\<open>zombie_processes\<close>, \<^verbatim>\<open>auth_logs\<close>, \<^verbatim>\<open>search_logs\<close>, \<^verbatim>\<open>recent_errors\<close> and the second
  query of \<^verbatim>\<open>dns_test\<close> print a placeholder text in place of an empty output and a
  non-empty output as it is; the other actions print the output as it is, empty or not.
\<close>

theorem captured_output_rendering:
  "renders [verbatim, or_placeholder ''No results''] s (state_of (dns_test w s)) \<and>
   renders [or_placeholder ''No matching processes''] s (state_of (find_process w s)) \<and>
   renders [or_placeholder ''No results (may require root)''] s (state_of (open_files w s)) \<and>
   renders [or_placeholder (colored ''\<newline>No zombie processes'' GREEN)] s (state_of (zombie_processes w s)) \<and>
   renders [or_placeholder ''Auth log not found''] s (state_of (auth_logs w s)) \<and>
   renders [or_placeholder ''No matches found''] s (state_of (search_logs w s)) \<and>
   renders [or_placeholder ''No errors in the last hour''] s (state_of (recent_errors w s)) \<and>
   renders [verbatim] s (state_of (ping_test w s)) \<and>
   renders [verbatim] s (state_of (show_connections w s)) \<and>
   renders [verbatim] s (state_of (interface_stats w s)) \<and>
   renders [verbatim] s (state_of (top_by_cpu w s)) \<and>
   renders [verbatim] s (state_of (top_by_memory w s)) \<and>
   renders [verbatim] s (state_of (thread_analysis w s)) \<and>
   renders [verbatim] s (state_of (dmesg_logs w s)) \<and>
   renders [verbatim] s (state_of (failed_services w s)) \<and>
   renders [verbatim] s (state_of (cpu_info w s)) \<and>
   renders [verbatim] s (state_of (io_stats w s)) \<and>
   renders [verbatim] s (state_of (k8s_pod_status w s)) \<and>
   renders [verbatim] s (state_of (k8s_events w s)) \<and>
   renders [verbatim] s (state_of (change_namespace w s)) \<and>
   renders [verbatim, verbatim] s (state_of (memory_details w s)) \<and>
   renders [verbatim, verbatim] s (state_of (disk_usage w s)) \<and>
   renders [verbatim, verbatim] s (state_of (k8s_logs w s)) \<and>
   renders [verbatim, verbatim] s (state_of (k8s_nodes w s))"
  using renders_placeholder_actions [where w = w, THEN preservesD, where s = s]
    renders_verbatim_actions [where w = w, THEN preservesD, where s = s]
  by simp

theorem captured_output_rendering_witness:
  "Print ''No matching processes'' \<in>
     set (tty (state_of (find_process silent_failure (DebugToolkit None ''default'' [''nginx''])))) \<and>
   Print ''acb'' \<in>
     set (tty (state_of (find_process chatty (DebugToolkit None ''default'' [''nginx'']))))"
proof -
  let ?s = "DebugToolkit None ''default'' [''nginx'']"
  have a: "new_results ?s (state_of (find_process silent_failure ?s)) = [(1, [])]"
    "new_results ?s (state_of (find_process chatty ?s)) = [(0, ''acb'')]"
    "new_events ?s (state_of (find_process silent_failure ?s)) =
       tty (state_of (find_process silent_failure ?s))"
    "new_events ?s (state_of (find_process chatty ?s)) = tty (state_of (find_process chatty ?s))"
    by (simp_all add: console_eval find_process_def silent_failure_def chatty_def
        new_results_def new_events_def)
  from captured_output_rendering [where w = silent_failure and s = ?s]
  have "renders [or_placeholder ''No matching processes''] ?s
      (state_of (find_process silent_failure ?s))"
    by blast
  moreover from captured_output_rendering [where w = chatty and s = ?s]
  have "renders [or_placeholder ''No matching processes''] ?s (state_of (find_process chatty ?s))"
    by blast
  ultimately show ?thesis
    unfolding renders_def a by (simp add: or_placeholder_def)
qed

end
